theory Spec2Isabelle
  imports Complex_Main "HOL-Library.Word"
begin

section \<open>Shared data: errors, matrices, scene nodes\<close>

text \<open>
  The converter is one JavaScript function, \<open>convert\<close> (main.js), that mutates a glTF
  document in stages. Each stage is embedded as a function from the part of the document
  it touches to either an error or the updated part.

  JavaScript raises a TypeError when a property of \<open>null\<close> or \<open>undefined\<close> is read and when
  a value that is no function is called. The converter has no error handling of its own,
  so every failure of the modelled stages is such a TypeError; the string names the
  variable that was null or undefined, or the method that was missing.

  Numbers are IEEE floats in the program and real numbers here: rounding is not modelled.
\<close>

datatype error = TypeError string

type_synonym mat4 = "real list"

definition mat4_identity :: mat4 where
  "mat4_identity = [1, 0, 0, 0,  0, 1, 0, 0,  0, 0, 1, 0,  0, 0, 0, 1]"

definition mat4_zero :: mat4 where
  "mat4_zero = replicate 16 0"


text \<open>
  Objects are addressed by handles (natural numbers). A node object survives its disposal
  as a JavaScript value, with its name but without any link to other objects, so the node
  store is total. \<open>parentNode\<close> is what \<open>getParentNode()\<close> returns: the parent node, or
  null for a child of a scene and for a detached node. \<open>mesh\<close> is the handle of the
  node's mesh, which several nodes may share, and \<open>hasSkin\<close> is set by \<open>setSkin\<close>.
\<close>

record node =
  name :: string
  parentNode :: "nat option"
  matrix :: mat4
  mesh :: "nat option"
  hasSkin :: bool

record skin =
  skeleton :: "nat option"
  joints :: "nat list"
  inverseBindMatrices :: "mat4 list option"

record document =
  nodes :: "nat \<Rightarrow> node"
  sceneChildren :: "nat list"
  sceneDonorChildren :: "nat list"
  skin :: "skin option"

section \<open>Skeleton splice: graft, joint pruning, inverse bind matrices\<close>

text \<open>
  main.js, lines 122 to 131. \<open>sceneDonor.listChildren()[0]\<close> is undefined for a donor
  scene without children, and \<open>scene.addChild\<close> reads the parent of its argument.
  \<open>skin\<close> is \<open>root.listSkins()[0]\<close>, undefined for a document without skins.
\<close>

definition graft :: "document \<Rightarrow> error + document" where
  "graft d =
     (case sceneDonorChildren d of
        [] \<Rightarrow> Inl (TypeError ''skinRoot'')
      | skinRoot # _ \<Rightarrow>
          (case skin d of
             None \<Rightarrow> Inl (TypeError ''skin'')
           | Some s \<Rightarrow>
               Inr (d\<lparr>sceneChildren := sceneChildren d @ [skinRoot],
                      skin := Some (s\<lparr>skeleton := Some skinRoot\<rparr>),
                      sceneDonorChildren := []\<rparr>)))"

text \<open>
  Lines 136 to 140: the name to joint index of the pruning block. It is a plain
  JavaScript object, \<open>{ }\<close>, whose prototype is \<open>Object.prototype\<close>. Assigning to a name
  creates or overwrites an own property, so a later joint with the same name replaces an
  earlier one; assigning to the name \<open>__proto__\<close> runs the inherited setter instead and
  makes the joint object the prototype of the index. Node objects are taken to have
  ordinary writable properties only, so that no other assignment is intercepted.
\<close>

record jointsObject =
  ownProperties :: "string \<rightharpoonup> nat"
  prototypeJoint :: "nat option"

definition setProperty :: "string \<Rightarrow> nat \<Rightarrow> jointsObject \<Rightarrow> jointsObject" where
  "setProperty key joint obj =
     (if key = ''__proto__'' then obj\<lparr>prototypeJoint := Some joint\<rparr>
      else obj\<lparr>ownProperties := (ownProperties obj)(key \<mapsto> joint)\<rparr>)"

definition indexJointObjects :: "(nat \<Rightarrow> node) \<Rightarrow> nat list \<Rightarrow> jointsObject" where
  "indexJointObjects ns js =
     foldl (\<lambda>obj j. setProperty (name (ns j)) j obj)
       \<lparr>ownProperties = Map.empty, prototypeJoint = None\<rparr> js"

text \<open>
  Line 143 reads \<open>jointsIndex[name]\<close> and lines 144 to 146 tell three cases apart: a
  value that is undefined or otherwise falsy, a joint, and any other truthy value. An own
  property is a joint. A name that is no own property is looked up in the prototype:
  \<open>Object.prototype\<close> has the twelve properties listed, all of them functions or
  objects, and \<open>__proto__\<close> reads as the prototype itself. When a joint has become the
  prototype, other names are properties of a node object of the library, and whether
  such a property is truthy is a parameter.
\<close>

datatype property = Falsy | JointNode nat | Truthy

definition objectPrototypeProperties :: "string list" where
  "objectPrototypeProperties =
     [''constructor'', ''__defineGetter__'', ''__defineSetter__'', ''hasOwnProperty'',
      ''__lookupGetter__'', ''__lookupSetter__'', ''isPrototypeOf'', ''propertyIsEnumerable'',
      ''toString'', ''valueOf'', ''__proto__'', ''toLocaleString'']"

definition getProperty :: "(string \<Rightarrow> bool) \<Rightarrow> jointsObject \<Rightarrow> string \<Rightarrow> property" where
  "getProperty nodeProperty obj key =
     (case ownProperties obj key of
        Some joint \<Rightarrow> JointNode joint
      | None \<Rightarrow>
          (case prototypeJoint obj of
             None \<Rightarrow> if key \<in> set objectPrototypeProperties then Truthy else Falsy
           | Some joint \<Rightarrow>
               if key = ''__proto__'' then JointNode joint
               else if nodeProperty key then Truthy else Falsy))"

text \<open>
  \<open>parent.removeChild(joint)\<close> and \<open>joint.dispose()\<close> on the node store: disposal cuts
  every link from and to the node, so its children lose their parent.
\<close>

definition removeChild :: "nat \<Rightarrow> nat \<Rightarrow> (nat \<Rightarrow> node) \<Rightarrow> (nat \<Rightarrow> node)" where
  "removeChild parent child ns =
     (if parentNode (ns child) = Some parent
      then ns(child := (ns child)\<lparr>parentNode := None\<rparr>) else ns)"

definition disposeNode :: "nat \<Rightarrow> (nat \<Rightarrow> node) \<Rightarrow> (nat \<Rightarrow> node)" where
  "disposeNode n ns =
     (\<lambda>k. if k = n then (ns k)\<lparr>parentNode := None, mesh := None, hasSkin := False\<rparr>
          else if parentNode (ns k) = Some n then (ns k)\<lparr>parentNode := None\<rparr>
          else ns k)"

text \<open>
  Lines 142 to 151: the loop over the deny list \<open>jointsToRemove\<close> (a data file, taken as a
  parameter). The index is not updated while joints are removed. A truthy value that is
  no joint has no method \<open>getParentNode\<close>, and calling it fails.
\<close>

fun removeJoints ::
  "(string \<Rightarrow> property) \<Rightarrow> string list \<Rightarrow> document \<Rightarrow> skin \<Rightarrow> error + (document \<times> skin)" where
  "removeJoints jointsIndex [] d s = Inr (d, s)"
| "removeJoints jointsIndex (n # rest) d s =
     (case jointsIndex n of
        Falsy \<Rightarrow> removeJoints jointsIndex rest d s
      | Truthy \<Rightarrow> Inl (TypeError ''joint.getParentNode'')
      | JointNode joint \<Rightarrow>
          (case parentNode (nodes d joint) of
             None \<Rightarrow> Inl (TypeError ''parent'')
           | Some parent \<Rightarrow>
               removeJoints jointsIndex rest
                 (d\<lparr>nodes := disposeNode joint (removeChild parent joint (nodes d)),
                    sceneChildren := removeAll joint (sceneChildren d)\<rparr>)
                 (s\<lparr>joints := removeAll joint (joints s),
                    skeleton := (if skeleton s = Some joint then None else skeleton s)\<rparr>)))"

definition pruneJoints :: "(string \<Rightarrow> bool) \<Rightarrow> string list \<Rightarrow> document \<Rightarrow> error + document" where
  "pruneJoints nodeProperty jointsToRemove d =
     (case skin d of
        None \<Rightarrow> Inl (TypeError ''skin'')
      | Some s \<Rightarrow>
          (case removeJoints (getProperty nodeProperty (indexJointObjects (nodes d) (joints s)))
                  jointsToRemove d s of
             Inl e \<Rightarrow> Inl e
           | Inr (d', s') \<Rightarrow> Inr (d'\<lparr>skin := Some s'\<rparr>)))"

text \<open>
  Lines 155 to 164. \<open>getWorldMatrix\<close> (gltf-transform) and \<open>mat4.invert\<close> (gl-matrix) are
  library functions and parameters here; \<open>mat4.invert\<close> returns null for a matrix without
  inverse, and \<open>setElement\<close> then reads a component of null. The skin may have no
  accessor of inverse bind matrices, in which case \<open>accessor.setArray\<close> fails.
\<close>

fun setInverses ::
  "(mat4 \<Rightarrow> mat4 option) \<Rightarrow> (nat \<Rightarrow> mat4) \<Rightarrow> nat list \<Rightarrow> nat \<Rightarrow> mat4 list \<Rightarrow> error + mat4 list" where
  "setInverses invert world [] i raw = Inr raw"
| "setInverses invert world (j # js) i raw =
     (case invert (world j) of
        None \<Rightarrow> Inl (TypeError ''value'')
      | Some m \<Rightarrow> setInverses invert world js (Suc i) (raw[i := m]))"

definition recomputeInverseBindMatrices ::
  "(mat4 \<Rightarrow> mat4 option) \<Rightarrow> ((nat \<Rightarrow> node) \<Rightarrow> nat \<Rightarrow> mat4) \<Rightarrow> document \<Rightarrow> error + document" where
  "recomputeInverseBindMatrices invert getWorldMatrix d =
     (case skin d of
        None \<Rightarrow> Inl (TypeError ''skin'')
      | Some s \<Rightarrow>
          (case inverseBindMatrices s of
             None \<Rightarrow> Inl (TypeError ''accessor'')
           | Some _ \<Rightarrow>
               (case setInverses invert (getWorldMatrix (nodes d)) (joints s) 0
                       (replicate (length (joints s)) mat4_zero) of
                  Inl e \<Rightarrow> Inl e
                | Inr raw \<Rightarrow> Inr (d\<lparr>skin := Some (s\<lparr>inverseBindMatrices := Some raw\<rparr>)\<rparr>))))"

text \<open>
  Lines 167 to 173: the name to position index used by the mesh stage, again a plain
  object. Its values are numbers, and assigning a number to the name \<open>__proto__\<close> stores
  nothing. The map holds the own properties; line 284 treats every inherited property,
  a function or an object, like a missing one, because \<open>isNaN\<close> of it holds.
\<close>

definition indexJoints :: "(nat \<Rightarrow> node) \<Rightarrow> nat list \<Rightarrow> (string \<rightharpoonup> nat)" where
  "indexJoints ns js =
     foldl (\<lambda>m i. if name (ns (js ! i)) = ''__proto__'' then m else m(name (ns (js ! i)) \<mapsto> i))
       Map.empty [0..<length js]"

text \<open>Lines 134 to 164 in sequence, and lines 122 to 164 in sequence.\<close>

definition pruneAndRecompute ::
  "(mat4 \<Rightarrow> mat4 option) \<Rightarrow> ((nat \<Rightarrow> node) \<Rightarrow> nat \<Rightarrow> mat4) \<Rightarrow> (string \<Rightarrow> bool) \<Rightarrow> string list
     \<Rightarrow> document \<Rightarrow> error + document" where
  "pruneAndRecompute invert getWorldMatrix nodeProperty jointsToRemove d =
     (case pruneJoints nodeProperty jointsToRemove d of
        Inl e \<Rightarrow> Inl e
      | Inr d1 \<Rightarrow> recomputeInverseBindMatrices invert getWorldMatrix d1)"

definition spliceSkeleton ::
  "(mat4 \<Rightarrow> mat4 option) \<Rightarrow> ((nat \<Rightarrow> node) \<Rightarrow> nat \<Rightarrow> mat4) \<Rightarrow> (string \<Rightarrow> bool) \<Rightarrow> string list
     \<Rightarrow> document \<Rightarrow> error + document" where
  "spliceSkeleton invert getWorldMatrix nodeProperty jointsToRemove d =
     (case graft d of
        Inl e \<Rightarrow> Inl e
      | Inr d1 \<Rightarrow> pruneAndRecompute invert getWorldMatrix nodeProperty jointsToRemove d1)"

text \<open>
  Running the sequence again on its own result, with a donor scene merged in again (each
  run of the converter loads the donor skeleton afresh).
\<close>

definition spliceTwice ::
  "(mat4 \<Rightarrow> mat4 option) \<Rightarrow> ((nat \<Rightarrow> node) \<Rightarrow> nat \<Rightarrow> mat4) \<Rightarrow> (string \<Rightarrow> bool) \<Rightarrow> string list
     \<Rightarrow> nat list \<Rightarrow> document \<Rightarrow> error + document" where
  "spliceTwice invert getWorldMatrix nodeProperty jointsToRemove donor d =
     (case spliceSkeleton invert getWorldMatrix nodeProperty jointsToRemove d of
        Inl e \<Rightarrow> Inl e
      | Inr d1 \<Rightarrow>
          spliceSkeleton invert getWorldMatrix nodeProperty jointsToRemove
            (d1\<lparr>sceneDonorChildren := donor\<rparr>))"

text \<open>What \<open>skin.listJoints()\<close> and the accessor of inverse bind matrices hold after a run.\<close>

definition jointsOf :: "error + document \<Rightarrow> nat list option" where
  "jointsOf r = (case r of Inl e \<Rightarrow> None | Inr d \<Rightarrow> map_option joints (skin d))"

definition matricesOf :: "error + document \<Rightarrow> mat4 list option" where
  "matricesOf r = (case r of Inl e \<Rightarrow> None | Inr d \<Rightarrow> Option.bind (skin d) inverseBindMatrices)"

definition matrixOf :: "error + document \<Rightarrow> nat \<Rightarrow> mat4 option" where
  "matrixOf r i =
     (case matricesOf r of
        None \<Rightarrow> None
      | Some raw \<Rightarrow> if i < length raw then Some (raw ! i) else None)"

definition jointCount :: "error + document \<Rightarrow> nat option" where
  "jointCount r = map_option length (jointsOf r)"

definition matrixCount :: "error + document \<Rightarrow> nat option" where
  "matrixCount r = map_option length (matricesOf r)"

definition jointsIndexOf :: "error + document \<Rightarrow> string \<Rightarrow> nat option" where
  "jointsIndexOf r n =
     (case r of
        Inl e \<Rightarrow> None
      | Inr d \<Rightarrow> (case skin d of None \<Rightarrow> None | Some s \<Rightarrow> indexJoints (nodes d) (joints s) n))"

section \<open>Animation filter\<close>

text \<open>
  main.js, lines 176 to 224. A channel refers to its target node and to its sampler, a
  sampler to its output accessor, and the accessor holds the keyframe values; accessors
  are shared objects, so the values live in a store. A disposed sampler is no longer
  returned by \<open>getSampler()\<close>.
\<close>

record channel =
  targetNode :: "nat option"
  targetPath :: string
  sampler :: "nat option"

record animation =
  channels :: "channel list"
  samplers :: "nat list"

record animationDocument =
  animations :: "animation list"
  samplerOutput :: "nat \<Rightarrow> nat option"
  disposedSamplers :: "nat set"
  accessors :: "nat \<Rightarrow> real list list"

text \<open>Line 62.\<close>

definition scale :: real where
  "scale = 0.032 * 1.1"

text \<open>
  \<open>vec3.scale(element, element, scale)\<close> of gl-matrix multiplies the first three
  components; \<open>setElement\<close> writes back as many components as the accessor's elements have.
\<close>

definition vec3_scale :: "real list \<Rightarrow> real \<Rightarrow> real list" where
  "vec3_scale a b = map (\<lambda>x. x * b) (take 3 a) @ drop 3 a"

definition getSampler :: "animationDocument \<Rightarrow> channel \<Rightarrow> nat option" where
  "getSampler st ch =
     (case sampler ch of
        None \<Rightarrow> None
      | Some sm \<Rightarrow> if sm \<in> disposedSamplers st then None else Some sm)"

text \<open>
  Lines 180 to 213: the loop \<open>while(c--)\<close> visits the channels from the last to the first,
  so the tail of the list is processed before its head. The result lists the channels
  the animation still has.
\<close>

fun filterChannels ::
  "(nat \<Rightarrow> node) \<Rightarrow> real \<Rightarrow> channel list \<Rightarrow> animationDocument
     \<Rightarrow> error + (channel list \<times> animationDocument)" where
  "filterChannels ns sc [] st = Inr ([], st)"
| "filterChannels ns sc (ch # chs) st =
     (case filterChannels ns sc chs st of
        Inl e \<Rightarrow> Inl e
      | Inr (kept, st') \<Rightarrow>
          (case targetNode ch of
             None \<Rightarrow> Inl (TypeError ''target'')
           | Some target \<Rightarrow>
               if name (ns target) = ''Controller-Global'' then
                 if targetPath ch = ''scale'' then Inr (kept, st')
                 else if targetPath ch = ''translation'' then
                   (case getSampler st' ch of
                      None \<Rightarrow> Inl (TypeError ''sampler'')
                    | Some sm \<Rightarrow>
                        (case samplerOutput st' sm of
                           None \<Rightarrow> Inl (TypeError ''accessor'')
                         | Some a \<Rightarrow>
                             Inr (ch # kept,
                                  st'\<lparr>accessors := (accessors st')
                                        (a := map (\<lambda>element. vec3_scale element sc)
                                                (accessors st' a))\<rparr>)))
                 else Inr (ch # kept, st')
               else if targetPath ch \<noteq> ''rotation'' then Inr (kept, st')
               else Inr (ch # kept, st')))"

text \<open>
  Lines 178 to 224: the loop \<open>while(i--)\<close> over the animations, last to first. After the
  channels of an animation are filtered, all its samplers and the animation itself are
  disposed, whatever channels are left; the animation processed is the last of the
  document's list at that moment.
\<close>

fun removeAnimationsFrom ::
  "(nat \<Rightarrow> node) \<Rightarrow> real \<Rightarrow> animation list \<Rightarrow> animationDocument \<Rightarrow> error + animationDocument" where
  "removeAnimationsFrom ns sc [] st = Inr st"
| "removeAnimationsFrom ns sc (a # as) st =
     (case removeAnimationsFrom ns sc as st of
        Inl e \<Rightarrow> Inl e
      | Inr st' \<Rightarrow>
          (case filterChannels ns sc (channels a) st' of
             Inl e \<Rightarrow> Inl e
           | Inr (kept, st'') \<Rightarrow>
               Inr (st''\<lparr>disposedSamplers := disposedSamplers st'' \<union> set (samplers a),
                         animations := butlast (animations st'')\<rparr>)))"

definition removeAnimations ::
  "(nat \<Rightarrow> node) \<Rightarrow> real \<Rightarrow> animationDocument \<Rightarrow> error + animationDocument" where
  "removeAnimations ns sc st = removeAnimationsFrom ns sc (animations st) st"

text \<open>
  The channels of a document that are translation channels of a node named
  Controller-Global and whose sampler writes to accessor \<open>a\<close>.
\<close>

definition rootTranslationOf :: "(nat \<Rightarrow> node) \<Rightarrow> (nat \<Rightarrow> nat option) \<Rightarrow> nat \<Rightarrow> channel \<Rightarrow> bool" where
  "rootTranslationOf ns out a ch =
     (case targetNode ch of
        None \<Rightarrow> False
      | Some target \<Rightarrow>
          name (ns target) = ''Controller-Global'' \<and> targetPath ch = ''translation'' \<and>
          (case sampler ch of None \<Rightarrow> False | Some sm \<Rightarrow> out sm = Some a))"

definition rootTranslations :: "(nat \<Rightarrow> node) \<Rightarrow> animationDocument \<Rightarrow> nat \<Rightarrow> channel list" where
  "rootTranslations ns st a =
     filter (rootTranslationOf ns (samplerOutput st) a) (concat (map channels (animations st)))"

text \<open>
  The condition under which the channel loop leaves a channel in its animation, read off
  the branches of lines 184 to 212.
\<close>

definition keepChannel :: "(nat \<Rightarrow> node) \<Rightarrow> channel \<Rightarrow> bool" where
  "keepChannel ns ch =
     (case targetNode ch of
        None \<Rightarrow> False
      | Some target \<Rightarrow>
          if name (ns target) = ''Controller-Global'' then targetPath ch \<noteq> ''scale''
          else targetPath ch = ''rotation'')"

text \<open>What a run left: the channels kept, the document's animations, an accessor.\<close>

definition keptOf :: "error + (channel list \<times> animationDocument) \<Rightarrow> channel list option" where
  "keptOf r = (case r of Inl e \<Rightarrow> None | Inr x \<Rightarrow> Some (fst x))"

definition animationsOf :: "error + animationDocument \<Rightarrow> animation list option" where
  "animationsOf r = (case r of Inl e \<Rightarrow> None | Inr st \<Rightarrow> Some (animations st))"

definition accessorOf :: "error + animationDocument \<Rightarrow> nat \<Rightarrow> real list list option" where
  "accessorOf r a = (case r of Inl e \<Rightarrow> None | Inr st \<Rightarrow> Some (accessors st a))"

section \<open>Rigid skinning of mesh nodes\<close>

text \<open>
  A primitive with the vertex attributes the converter reads and writes. \<open>JOINTS_0\<close> is a
  \<open>Uint8Array\<close> and \<open>WEIGHTS_0\<close> a \<open>Float32Array\<close>, both with four components for each
  vertex. The type of a vertex position is a parameter, with the function that moves a
  position by a matrix: \<open>transformMesh\<close> (gltf-transform) moves every position of every
  primitive of the mesh.
\<close>

record 'v primitive =
  POSITION :: "'v list option"
  JOINTS_0 :: "8 word list option"
  WEIGHTS_0 :: "real list option"
  TEXCOORD_0 :: "(real \<times> real) list option"
  TEXCOORD_1 :: "(real \<times> real) list option"

record 'v meshDocument =
  sceneNodes :: "nat \<Rightarrow> node"
  sceneRoots :: "nat list"
  meshes :: "nat \<Rightarrow> 'v primitive list"

definition transformMesh ::
  "(mat4 \<Rightarrow> 'v \<Rightarrow> 'v) \<Rightarrow> 'v primitive list \<Rightarrow> mat4 \<Rightarrow> 'v primitive list" where
  "transformMesh apply prims m =
     map (\<lambda>p. p\<lparr>POSITION := map_option (map (apply m)) (POSITION p)\<rparr>) prims"

definition mat4_fromScaling :: "real \<Rightarrow> real \<Rightarrow> real \<Rightarrow> mat4" where
  "mat4_fromScaling x y z = [x, 0, 0, 0,  0, y, 0, 0,  0, 0, z, 0,  0, 0, 0, 1]"

text \<open>
  Lines 309 to 315: a zeroed typed array of four components for each vertex, whose first
  component of every vertex is then set.
\<close>

definition fillFirstOfFour :: "'a::zero \<Rightarrow> nat \<Rightarrow> 'a list" where
  "fillFirstOfFour x n = foldl (\<lambda>arr w. arr[w * 4 + 0 := x]) (replicate (n * 4) 0) [0..<n]"

text \<open>Storing a number in a \<open>Uint8Array\<close> keeps it modulo 256.\<close>

definition joints_0_array :: "nat \<Rightarrow> nat \<Rightarrow> 8 word list" where
  "joints_0_array jointIndex n = fillFirstOfFour (of_nat jointIndex) n"

definition weights_0_array :: "nat \<Rightarrow> real list" where
  "weights_0_array n = fillFirstOfFour 1 n"

text \<open>Element \<open>w\<close> of a VEC4 accessor.\<close>

definition getElement4 :: "'a list \<Rightarrow> nat \<Rightarrow> 'a list" where
  "getElement4 arr w = take 4 (drop (w * 4) arr)"

text \<open>
  Lines 283 and 284: \<open>jointsIndex[jointsTuples[name]]\<close> and the test \<open>isNaN(index)\<close>.
  \<open>jointsTuples\<close> is a parsed data file and a parameter: it gives, for a name, the property
  key that the value read under that name converts to, and \<open>None\<close> when that value is
  undefined, which as a key is the string "undefined". \<open>jointsIndex\<close> holds the own
  properties of the index of lines 167 to 173; any other value read from that object is
  undefined or an inherited function or object, of which \<open>isNaN\<close> holds, so the walk
  treats it as no index.
\<close>

definition lookupJointIndex ::
  "(string \<rightharpoonup> string) \<Rightarrow> (string \<rightharpoonup> nat) \<Rightarrow> string \<Rightarrow> nat option" where
  "lookupJointIndex jointsTuples jointsIndex nm =
     jointsIndex (case jointsTuples nm of None \<Rightarrow> ''undefined'' | Some j \<Rightarrow> j)"

text \<open>
  Lines 279 to 290: the walk up the parents. It ends when a parent has a joint index or
  when there is no further parent; on a cyclic parent relation it does not end, which is
  the value \<open>None\<close>. The inner option is \<open>jointIndex\<close>, undefined or a number.
\<close>

partial_function (option) findJointIndex ::
  "(nat \<Rightarrow> node) \<Rightarrow> (string \<rightharpoonup> string) \<Rightarrow> (string \<rightharpoonup> nat) \<Rightarrow> nat option \<Rightarrow> nat option option" where
  "findJointIndex ns jointsTuples jointsIndex parentNode' =
     (if parentNode' = None then Some None
      else if lookupJointIndex jointsTuples jointsIndex (name (ns (the parentNode'))) = None
      then findJointIndex ns jointsTuples jointsIndex (parentNode (ns (the parentNode')))
      else Some (lookupJointIndex jointsTuples jointsIndex (name (ns (the parentNode')))))"

text \<open>
  Lines 298 to 326: the loop over the primitives. Each round writes the two attributes of
  primitive \<open>p\<close>, then transforms the whole mesh by the world transform and resets the
  node's matrix. The state is the mesh and the node's matrix.
\<close>

fun skinPrimitives ::
  "(mat4 \<Rightarrow> 'v \<Rightarrow> 'v) \<Rightarrow> nat \<Rightarrow> mat4 \<Rightarrow> nat list \<Rightarrow> 'v primitive list \<times> mat4
     \<Rightarrow> error + ('v primitive list \<times> mat4)" where
  "skinPrimitives apply jointIndex worldTransform [] (prims, m) = Inr (prims, m)"
| "skinPrimitives apply jointIndex worldTransform (p # ps) (prims, m) =
     (case POSITION (prims ! p) of
        None \<Rightarrow> Inl (TypeError ''positions'')
      | Some positions \<Rightarrow>
          skinPrimitives apply jointIndex worldTransform ps
            (transformMesh apply
               (prims[p := (prims ! p)
                  \<lparr>JOINTS_0 := Some (joints_0_array jointIndex (length positions)),
                   WEIGHTS_0 := Some (weights_0_array (length positions))\<rparr>])
               worldTransform,
             mat4_identity))"

definition endsWith :: "string \<Rightarrow> string \<Rightarrow> bool" where
  "endsWith s suffix = (length suffix \<le> length s \<and> drop (length s - length suffix) s = suffix)"

text \<open>
  Lines 269 to 273: the node leaves its parent for the scene and takes its former world
  transform as its matrix.
\<close>

definition reparentToRoot :: "mat4 \<Rightarrow> nat \<Rightarrow> (nat \<Rightarrow> node) \<Rightarrow> (nat \<Rightarrow> node)" where
  "reparentToRoot worldTransform n ns = ns(n := (ns n)\<lparr>parentNode := None, matrix := worldTransform\<rparr>)"

text \<open>
  Lines 262 to 334, the body of the loop for one node \<open>n\<close>. \<open>getWorldMatrix\<close> is the
  library's, a parameter as above.
\<close>

definition processNode ::
  "(mat4 \<Rightarrow> 'v \<Rightarrow> 'v) \<Rightarrow> ((nat \<Rightarrow> node) \<Rightarrow> nat \<Rightarrow> mat4) \<Rightarrow> (string \<rightharpoonup> string) \<Rightarrow> (string \<rightharpoonup> nat)
     \<Rightarrow> real \<Rightarrow> nat \<Rightarrow> 'v meshDocument \<Rightarrow> (error + 'v meshDocument) option" where
  "processNode apply getWorldMatrix jointsTuples jointsIndex sc n st =
     (let ns = sceneNodes st; parent = parentNode (ns n) in
      case mesh (ns n) of
        Some mesh' \<Rightarrow>
          (let worldTransform = getWorldMatrix ns n in
           case parent of
             None \<Rightarrow> Some (Inl (TypeError ''parent''))
           | Some parent' \<Rightarrow>
               (let ns1 = reparentToRoot worldTransform n ns;
                    roots1 = sceneRoots st @ [n];
                    prims1 = transformMesh apply (meshes st mesh') (mat4_fromScaling sc sc sc)
                in case findJointIndex ns1 jointsTuples jointsIndex parent of
                     None \<Rightarrow> None
                   | Some None \<Rightarrow>
                       Some (Inr (st\<lparr>sceneNodes := ns1, sceneRoots := roots1,
                                     meshes := (meshes st)(mesh' := prims1)\<rparr>))
                   | Some (Some jointIndex) \<Rightarrow>
                       (case skinPrimitives apply jointIndex worldTransform
                               [0..<length prims1] (prims1, worldTransform) of
                          Inl e \<Rightarrow> Some (Inl e)
                        | Inr (prims2, m) \<Rightarrow>
                            Some (Inr (st\<lparr>sceneNodes :=
                                            ns1(n := (ns1 n)\<lparr>hasSkin := True, matrix := m\<rparr>),
                                          sceneRoots := roots1,
                                          meshes := (meshes st)(mesh' := prims2)\<rparr>)))))
      | None \<Rightarrow>
          if endsWith (name (ns n)) ''-Local'' then
            (case parent of
               None \<Rightarrow> Some (Inl (TypeError ''parent''))
             | Some parent' \<Rightarrow>
                 Some (Inr (st\<lparr>sceneNodes := disposeNode n (removeChild parent' n ns),
                               sceneRoots := removeAll n (sceneRoots st)\<rparr>)))
          else Some (Inr st))"

text \<open>
  Lines 262 to 334: the loop over the collected nodes, parents before children. It stops
  at the first error.
\<close>

fun processNodes ::
  "(mat4 \<Rightarrow> 'v \<Rightarrow> 'v) \<Rightarrow> ((nat \<Rightarrow> node) \<Rightarrow> nat \<Rightarrow> mat4) \<Rightarrow> (string \<rightharpoonup> string) \<Rightarrow> (string \<rightharpoonup> nat)
     \<Rightarrow> real \<Rightarrow> nat list \<Rightarrow> 'v meshDocument \<Rightarrow> (error + 'v meshDocument) option" where
  "processNodes apply getWorldMatrix jointsTuples jointsIndex sc [] st = Some (Inr st)"
| "processNodes apply getWorldMatrix jointsTuples jointsIndex sc (n # rest) st =
     (case processNode apply getWorldMatrix jointsTuples jointsIndex sc n st of
        None \<Rightarrow> None
      | Some (Inl e) \<Rightarrow> Some (Inl e)
      | Some (Inr st') \<Rightarrow> processNodes apply getWorldMatrix jointsTuples jointsIndex sc rest st')"

text \<open>What a run of the mesh stage left in primitive \<open>p\<close> of mesh \<open>m\<close>.\<close>

definition primitiveOf :: "(error + 'v meshDocument) option \<Rightarrow> nat \<Rightarrow> nat \<Rightarrow> 'v primitive option" where
  "primitiveOf r m p =
     (case r of
        Some (Inr st) \<Rightarrow> if p < length (meshes st m) then Some (meshes st m ! p) else None
      | _ \<Rightarrow> None)"

definition positionsOf :: "(error + 'v meshDocument) option \<Rightarrow> nat \<Rightarrow> nat \<Rightarrow> 'v list option" where
  "positionsOf r m p = Option.bind (primitiveOf r m p) POSITION"

definition jointsElementOf :: "(error + 'v meshDocument) option \<Rightarrow> nat \<Rightarrow> nat \<Rightarrow> nat \<Rightarrow> nat list option" where
  "jointsElementOf r m p w =
     map_option (\<lambda>arr. map unat (getElement4 arr w)) (Option.bind (primitiveOf r m p) JOINTS_0)"

definition weightsElementOf :: "(error + 'v meshDocument) option \<Rightarrow> nat \<Rightarrow> nat \<Rightarrow> nat \<Rightarrow> real list option" where
  "weightsElementOf r m p w =
     map_option (\<lambda>arr. getElement4 arr w) (Option.bind (primitiveOf r m p) WEIGHTS_0)"

section \<open>Atlas layout\<close>

text \<open>Lines 385 and 386, for \<open>n\<close> collected primitives.\<close>

definition atlasWidth :: "nat \<Rightarrow> nat" where
  "atlasWidth n = nat \<lceil>sqrt (real n)\<rceil>"

definition targetAtlasSize :: "nat \<Rightarrow> nat" where
  "targetAtlasSize n = atlasWidth n * 64"

text \<open>
  Modelled from the spec: \<open>remapUvsToAtlas\<close> is defined in includes/atlas.js, which is
  not part of the sources. The specification gives the column of a slot as the slot
  index modulo the grid side.
\<close>

definition atlasColumn :: "nat \<Rightarrow> nat \<Rightarrow> nat" where
  "atlasColumn slotIndex gridSide = slotIndex mod gridSide"

text \<open>
  Modelled from the spec: the row of a slot (includes/atlas.js is missing) is the integer
  quotient of the slot index by the grid side.
\<close>

definition atlasRow :: "nat \<Rightarrow> nat \<Rightarrow> nat" where
  "atlasRow slotIndex gridSide = slotIndex div gridSide"

text \<open>
  Modelled from the spec: the remapping of one coordinate pair (includes/atlas.js is
  missing) is \<open>((u + col) / gridSide, (v + row) / gridSide)\<close>.
\<close>

definition remapUv :: "nat \<Rightarrow> nat \<Rightarrow> real \<times> real \<Rightarrow> real \<times> real" where
  "remapUv slotIndex gridSide uv =
     ((fst uv + real (atlasColumn slotIndex gridSide)) / real gridSide,
      (snd uv + real (atlasRow slotIndex gridSide)) / real gridSide)"

text \<open>
  Modelled from the spec: \<open>remapUvsToAtlas\<close> (includes/atlas.js is missing) remaps every
  coordinate pair of the buffer.
\<close>

definition remapUvsToAtlas :: "(real \<times> real) list \<Rightarrow> nat \<Rightarrow> nat \<Rightarrow> (real \<times> real) list" where
  "remapUvsToAtlas uvs slotIndex gridSide = map (remapUv slotIndex gridSide) uvs"

text \<open>Lines 389 to 394: primitive \<open>i\<close> of the collected list takes slot \<open>i\<close>.\<close>

definition updateUVs :: "'v primitive list \<Rightarrow> 'v primitive list" where
  "updateUVs allPrimitives =
     map (\<lambda>(i, p). p\<lparr>TEXCOORD_0 := map_option (\<lambda>uv. remapUvsToAtlas uv i (atlasWidth (length allPrimitives)))
                                     (TEXCOORD_0 p),
                     TEXCOORD_1 := map_option (\<lambda>uv. remapUvsToAtlas uv i (atlasWidth (length allPrimitives)))
                                     (TEXCOORD_1 p)\<rparr>)
         (enumerate 0 allPrimitives)"

section \<open>Example documents\<close>

text \<open>
  A skeleton of an armature (node 0), a hip joint (node 1), tail joints (nodes 2 to 8)
  that all carry the name Tail, and a joint named constructor (node 9); nodes from 10
  on are further armature roots. Every matrix is the identity, so every world matrix is
  the identity and is its own inverse. No property of a node object is taken as truthy.
\<close>

definition exampleNodes :: "nat \<Rightarrow> node" where
  "exampleNodes k =
     \<lparr>name = (if k = 0 \<or> 10 \<le> k then ''Armature'' else if k = 1 then ''Hips''
              else if k = 9 then ''constructor'' else ''Tail''),
      parentNode = (if k = 0 \<or> 10 \<le> k then None else if k = 1 then Some 0 else Some 1),
      matrix = mat4_identity, mesh = None, hasSkin = False\<rparr>"

definition exampleDocument :: "nat list \<Rightarrow> nat list \<Rightarrow> document" where
  "exampleDocument donor js =
     \<lparr>nodes = exampleNodes, sceneChildren = [], sceneDonorChildren = donor,
      skin = Some \<lparr>skeleton = None, joints = js,
                   inverseBindMatrices = Some (replicate (length js) mat4_identity)\<rparr>\<rparr>"

definition identityInvert :: "mat4 \<Rightarrow> mat4 option" where
  "identityInvert m = (if m = mat4_identity then Some mat4_identity else None)"

definition identityWorld :: "(nat \<Rightarrow> node) \<Rightarrow> nat \<Rightarrow> mat4" where
  "identityWorld ns j = matrix (ns j)"

definition noNodeProperty :: "string \<Rightarrow> bool" where
  "noNodeProperty key = False"



text \<open>
  An animated document: node 0 is the node named Controller-Global, animation \<open>i\<close> owns
  the samplers \<open>4 * i\<close> to \<open>4 * i + 3\<close>, sampler \<open>s\<close> writes to accessor \<open>s mod 4\<close>, and
  accessor 0 holds the single keyframe (10, 0, 0).
\<close>

definition exampleTargets :: "nat \<Rightarrow> node" where
  "exampleTargets k =
     \<lparr>name = (if k = 0 then ''Controller-Global'' else ''Hips''),
      parentNode = None, matrix = mat4_identity, mesh = None, hasSkin = False\<rparr>"

definition exampleChannel :: "nat \<Rightarrow> string \<Rightarrow> nat \<Rightarrow> channel" where
  "exampleChannel target path sm = \<lparr>targetNode = Some target, targetPath = path, sampler = Some sm\<rparr>"

definition exampleAnimations :: "channel list list \<Rightarrow> animationDocument" where
  "exampleAnimations chss =
     \<lparr>animations =
        map (\<lambda>(i, chs). \<lparr>channels = chs, samplers = [4 * i, 4 * i + 1, 4 * i + 2, 4 * i + 3]\<rparr>)
          (enumerate 0 chss),
      samplerOutput = (\<lambda>sm. Some (sm mod 4)),
      disposedSamplers = {},
      accessors = (\<lambda>a. if a = 0 then [[10, 0, 0]] else [[0, 0, 0, 1]])\<rparr>"

text \<open>
  A mesh document: the scene holds node 4, node 5 is its child and node 6, which carries
  mesh 0, the child of node 5; the joints map sends the name of node 5 to the joint
  Hips. The nodes collected from the scene are 4, 5 and 6 in this order. A vertex
  position is the list of the matrices applied to it, latest first, and applying a
  matrix puts it in front.
\<close>

definition exampleSceneNodes :: "nat \<Rightarrow> node" where
  "exampleSceneNodes k =
     \<lparr>name = (if k = 6 then ''Body-Mesh'' else if k = 5 then ''Body-Global'' else ''World-Global''),
      parentNode = (if k = 6 then Some 5 else if k = 5 then Some 4 else None),
      matrix = mat4_identity,
      mesh = (if k = 6 then Some 0 else None),
      hasSkin = False\<rparr>"

definition examplePrimitive :: "nat \<Rightarrow> mat4 list primitive" where
  "examplePrimitive n =
     \<lparr>POSITION = Some (replicate n []), JOINTS_0 = None, WEIGHTS_0 = None,
      TEXCOORD_0 = None, TEXCOORD_1 = None\<rparr>"

definition exampleMeshDocument :: "mat4 list primitive list \<Rightarrow> mat4 list meshDocument" where
  "exampleMeshDocument prims =
     \<lparr>sceneNodes = exampleSceneNodes, sceneRoots = [4], meshes = (\<lambda>m. if m = 0 then prims else [])\<rparr>"

definition exampleWorldMatrix :: "(nat \<Rightarrow> node) \<Rightarrow> nat \<Rightarrow> mat4" where
  "exampleWorldMatrix ns n = mat4_fromScaling 2 2 2"

definition exampleJointsTuples :: "string \<rightharpoonup> string" where
  "exampleJointsTuples = [''Body-Global'' \<mapsto> ''Hips'']"

definition exampleJointsIndex :: "nat \<Rightarrow> (string \<rightharpoonup> nat)" where
  "exampleJointsIndex k = [''Hips'' \<mapsto> k]"

section \<open>Facts about the skeleton splice\<close>

lemma setInverses_result:
  "setInverses invert world js i raw = Inr raw' \<Longrightarrow> i + length js \<le> length raw \<Longrightarrow>
     raw' = take i raw @ map (\<lambda>j. the (invert (world j))) js @ drop (i + length js) raw"
proof (induction js arbitrary: i raw)
  case Nil
  then show ?case by simp
next
  case (Cons j js)
  from Cons.prems obtain m where m: "invert (world j) = Some m"
    and r: "setInverses invert world js (Suc i) (raw[i := m]) = Inr raw'"
    by (auto split: option.splits)
  from Cons.prems have len: "Suc i + length js \<le> length (raw[i := m])" by simp
  have "raw' = take (Suc i) (raw[i := m]) @ map (\<lambda>j. the (invert (world j))) js
                 @ drop (Suc i + length js) (raw[i := m])"
    using Cons.IH [OF r len] .
  moreover have "take (Suc i) (raw[i := m]) = take i raw @ [m]"
    using Cons.prems(2) by (simp add: take_Suc_conv_app_nth)
  ultimately show ?case using m by simp
qed

lemma setInverses_total:
  "(\<forall>j \<in> set js. invert (world j) \<noteq> None) \<Longrightarrow> \<exists>raw'. setInverses invert world js i raw = Inr raw'"
  by (induction js arbitrary: i raw) (auto split: option.splits)

lemma setInverses_invertible:
  "setInverses invert world js i raw = Inr raw' \<Longrightarrow> j \<in> set js \<Longrightarrow> invert (world j) \<noteq> None"
  by (induction js arbitrary: i raw) (auto split: option.splits)

lemma recompute_result:
  assumes "recomputeInverseBindMatrices invert gw d = Inr d'"
  shows "\<exists>s. skin d = Some s \<and> inverseBindMatrices s \<noteq> None \<and> nodes d' = nodes d \<and>
      skin d' = Some (s\<lparr>inverseBindMatrices :=
         Some (map (\<lambda>j. the (invert (gw (nodes d) j))) (joints s))\<rparr>)"
proof -
  from assms obtain s old raw where s: "skin d = Some s" and o: "inverseBindMatrices s = Some old"
    and r: "setInverses invert (gw (nodes d)) (joints s) 0 (replicate (length (joints s)) mat4_zero) = Inr raw"
    and d': "d' = d\<lparr>skin := Some (s\<lparr>inverseBindMatrices := Some raw\<rparr>)\<rparr>"
    by (auto simp: recomputeInverseBindMatrices_def split: option.splits sum.splits)
  have "raw = map (\<lambda>j. the (invert (gw (nodes d) j))) (joints s)"
    using setInverses_result [OF r] by simp
  with s o d' show ?thesis by simp
qed

lemma recompute_invertible:
  assumes "recomputeInverseBindMatrices invert gw d = Inr d'" "skin d = Some s" "j \<in> set (joints s)"
  shows "invert (gw (nodes d) j) \<noteq> None"
proof -
  from assms(1,2) obtain raw where
    "setInverses invert (gw (nodes d)) (joints s) 0 (replicate (length (joints s)) mat4_zero) = Inr raw"
    by (auto simp: recomputeInverseBindMatrices_def split: option.splits sum.splits)
  from setInverses_invertible [OF this assms(3)] show ?thesis .
qed

lemma those_map_Some:
  "\<forall>x \<in> set xs. f x \<noteq> None \<Longrightarrow> those (map f xs) = Some (map (\<lambda>x. the (f x)) xs)"
  by (induction xs) auto

lemma removeJoints_result:
  "removeJoints idx deny d s = Inr (d', s') \<Longrightarrow>
     joints s' = filter (\<lambda>j. \<forall>n \<in> set deny. idx n \<noteq> JointNode j) (joints s) \<and>
     inverseBindMatrices s' = inverseBindMatrices s \<and>
     (\<forall>k. name (nodes d' k) = name (nodes d k))"
proof (induction deny arbitrary: d s)
  case Nil
  then show ?case by simp
next
  case (Cons n rest)
  show ?case
  proof (cases "idx n")
    case Falsy
    with Cons show ?thesis by simp
  next
    case Truthy
    with Cons.prems show ?thesis by simp
  next
    case (JointNode joint)
    with Cons.prems obtain parent where p: "parentNode (nodes d joint) = Some parent"
      and r: "removeJoints idx rest
                 (d\<lparr>nodes := disposeNode joint (removeChild parent joint (nodes d)),
                    sceneChildren := removeAll joint (sceneChildren d)\<rparr>)
                 (s\<lparr>joints := removeAll joint (joints s),
                    skeleton := (if skeleton s = Some joint then None else skeleton s)\<rparr>) = Inr (d', s')"
      by (auto split: option.splits)
    have nm: "\<forall>k. name (disposeNode joint (removeChild parent joint (nodes d)) k) = name (nodes d k)"
      by (simp add: disposeNode_def removeChild_def)
    from Cons.IH [OF r] JointNode nm show ?thesis
      by (auto simp: removeAll_filter_not_eq intro: filter_cong)
  qed
qed




lemma index_own_proto:
  "ownProperties (foldl (\<lambda>obj j. setProperty (name (ns j)) j obj) obj0 js) ''__proto__''
     = ownProperties obj0 ''__proto__''"
  by (induction js arbitrary: obj0) (simp_all add: setProperty_def)


lemma getProperty_set_other:
  "n \<noteq> k \<Longrightarrow> getProperty np obj n = JointNode j \<Longrightarrow>
     getProperty np (setProperty k x obj) n = JointNode j"
  by (auto simp: getProperty_def setProperty_def split: option.splits if_splits)

lemma getProperty_set_same:
  "ownProperties obj ''__proto__'' = None \<Longrightarrow> getProperty np (setProperty k x obj) k = JointNode x"
  by (simp add: getProperty_def setProperty_def)

lemma indexJointObjects_snoc:
  "indexJointObjects ns (js @ [x]) = setProperty (name (ns x)) x (indexJointObjects ns js)"
  by (simp add: indexJointObjects_def)

lemma indexJointObjects_distinct:
  "distinct (map (\<lambda>j. name (ns j)) js) \<Longrightarrow> j \<in> set js \<Longrightarrow>
     getProperty np (indexJointObjects ns js) (name (ns j)) = JointNode j"
proof (induction js rule: rev_induct)
  case Nil
  then show ?case by simp
next
  case (snoc x xs)
  have own: "ownProperties (indexJointObjects ns xs) ''__proto__'' = None"
    by (simp add: indexJointObjects_def index_own_proto)
  show ?case
  proof (cases "j = x")
    case True
    then show ?thesis
      by (simp add: indexJointObjects_snoc getProperty_set_same own)
  next
    case False
    with snoc.prems have j: "j \<in> set xs" and d: "distinct (map (\<lambda>j. name (ns j)) xs)"
      and nx: "name (ns x) \<notin> (\<lambda>j. name (ns j)) ` set xs"
      by auto
    from j have "name (ns j) \<in> (\<lambda>j. name (ns j)) ` set xs" by (rule imageI)
    with nx have ne: "name (ns j) \<noteq> name (ns x)" by metis
    from snoc.IH [OF d j] ne show ?thesis
      by (simp add: indexJointObjects_snoc getProperty_set_other)
  qed
qed

lemma indexJoints_foldl:
  "foldl (\<lambda>m i. if name (ns (js ! i)) = ''__proto__'' then m else m(name (ns (js ! i)) \<mapsto> i)) m0 is n = None
     \<longleftrightarrow> m0 n = None \<and> (n = ''__proto__'' \<or> n \<notin> (\<lambda>i. name (ns (js ! i))) ` set is)"
  by (induction "is" arbitrary: m0) auto

lemma indexJoints_None:
  "indexJoints ns js n = None \<longleftrightarrow> n = ''__proto__'' \<or> n \<notin> (\<lambda>j. name (ns j)) ` set js"
proof -
  have "map (\<lambda>i. name (ns (js ! i))) [0..<length js] = map (\<lambda>j. name (ns j)) (map ((!) js) [0..<length js])"
    by simp
  then have "map (\<lambda>i. name (ns (js ! i))) [0..<length js] = map (\<lambda>j. name (ns j)) js"
    by (simp only: map_nth)
  then have "set (map (\<lambda>i. name (ns (js ! i))) [0..<length js]) = set (map (\<lambda>j. name (ns j)) js)"
    by simp
  then have "(\<lambda>i. name (ns (js ! i))) ` set [0..<length js] = (\<lambda>j. name (ns j)) ` set js"
    by (simp only: set_map)
  then show ?thesis by (simp add: indexJoints_def indexJoints_foldl)
qed

lemma pruneJoints_result:
  assumes "pruneJoints np deny d = Inr d1" "skin d = Some s"
  shows "\<exists>s1. skin d1 = Some s1 \<and>
           joints s1 = filter (\<lambda>j. \<forall>n \<in> set deny.
                         getProperty np (indexJointObjects (nodes d) (joints s)) n \<noteq> JointNode j) (joints s) \<and>
           inverseBindMatrices s1 = inverseBindMatrices s \<and>
           (\<forall>k. name (nodes d1 k) = name (nodes d k))"
proof -
  from assms obtain d' s' where
    r: "removeJoints (getProperty np (indexJointObjects (nodes d) (joints s))) deny d s = Inr (d', s')"
    and d1: "d1 = d'\<lparr>skin := Some s'\<rparr>"
    by (auto simp: pruneJoints_def split: sum.splits)
  from removeJoints_result [OF r] d1 show ?thesis by simp
qed

lemma pruned_names_gone:
  assumes "distinct (map (\<lambda>j. name (ns j)) js)"
    and "j \<in> set (filter (\<lambda>j. \<forall>n \<in> set deny. getProperty np (indexJointObjects ns js) n \<noteq> JointNode j) js)"
  shows "name (ns j) \<notin> set deny"
proof
  assume "name (ns j) \<in> set deny"
  moreover from assms have "j \<in> set js" by simp
  then have "getProperty np (indexJointObjects ns js) (name (ns j)) = JointNode j"
    using assms(1) by (rule indexJointObjects_distinct [rotated])
  ultimately show False using assms(2) by auto
qed


section \<open>Facts about the animation filter\<close>

lemma vec3_scale_one: "vec3_scale a 1 = a"
  by (simp add: vec3_scale_def)

lemma vec3_scale_scale: "vec3_scale (vec3_scale a x) y = vec3_scale a (x * y)"
  by (cases "3 \<le> length a") (simp_all add: vec3_scale_def mult.assoc min_def)

lemma map_vec3_scale_power:
  "map (\<lambda>el. vec3_scale el sc) (map (\<lambda>el. vec3_scale el (sc ^ n)) xs) = map (\<lambda>el. vec3_scale el (sc ^ Suc n)) xs"
  by (simp add: vec3_scale_scale mult.commute)

lemma filterChannels_kept:
  "filterChannels ns sc chs st = Inr (kept, st') \<Longrightarrow> kept = filter (keepChannel ns) chs"
proof (induction chs arbitrary: kept st')
  case Nil
  then show ?case by simp
next
  case (Cons ch chs)
  from Cons.prems obtain k1 st1 where r: "filterChannels ns sc chs st = Inr (k1, st1)"
    by (auto split: sum.splits)
  have k1: "k1 = filter (keepChannel ns) chs" using Cons.IH [OF r] .
  from Cons.prems r obtain t where t: "targetNode ch = Some t"
    by (auto split: option.splits)
  from Cons.prems r t have "kept = (if keepChannel ns ch then ch # k1 else k1)"
    by (auto simp: keepChannel_def split: if_splits option.splits)
  with k1 show ?case by simp
qed

lemma filterChannels_frame:
  "filterChannels ns sc chs st = Inr (kept, st') \<Longrightarrow>
     samplerOutput st' = samplerOutput st \<and> disposedSamplers st' = disposedSamplers st \<and>
     animations st' = animations st"
proof (induction chs arbitrary: kept st')
  case Nil
  then show ?case by simp
next
  case (Cons ch chs)
  from Cons.prems obtain k1 st1 where r: "filterChannels ns sc chs st = Inr (k1, st1)"
    by (auto split: sum.splits)
  note IH = Cons.IH [OF r]
  from Cons.prems r have "samplerOutput st' = samplerOutput st1 \<and>
      disposedSamplers st' = disposedSamplers st1 \<and> animations st' = animations st1"
    by (auto split: if_splits option.splits)
  with IH show ?case by simp
qed

lemma filterChannels_accessors:
  "filterChannels ns sc chs st = Inr (kept, st') \<Longrightarrow>
     accessors st' a =
        map (\<lambda>el. vec3_scale el (sc ^ length (filter (rootTranslationOf ns (samplerOutput st) a) chs)))
          (accessors st a)"
proof (induction chs arbitrary: kept st')
  case Nil
  then show ?case by (simp add: vec3_scale_one)
next
  case (Cons ch chs)
  from Cons.prems obtain k1 st1 where r: "filterChannels ns sc chs st = Inr (k1, st1)"
    by (auto split: sum.splits)
  note IH = Cons.IH [OF r]
  have so: "samplerOutput st1 = samplerOutput st" using filterChannels_frame [OF r] by simp
  from Cons.prems r obtain t where t: "targetNode ch = Some t"
    by (auto split: option.splits)
  show ?case
  proof (cases "name (ns t) = ''Controller-Global'' \<and> targetPath ch = ''translation''")
    case False
    then have nr: "\<not> rootTranslationOf ns (samplerOutput st) a ch"
      using t by (auto simp: rootTranslationOf_def)
    from False Cons.prems r t have "st' = st1"
      by (auto split: if_splits)
    with IH nr show ?thesis by simp
  next
    case True
    with Cons.prems r t obtain sm b where sm: "getSampler st1 ch = Some sm"
      and b: "samplerOutput st1 sm = Some b"
      and s': "st' = st1\<lparr>accessors := (accessors st1)(b := map (\<lambda>element. vec3_scale element sc) (accessors st1 b))\<rparr>"
      by (auto split: option.splits)
    from sm have smc: "sampler ch = Some sm"
      by (auto simp: getSampler_def split: option.splits if_splits)
    have root: "rootTranslationOf ns (samplerOutput st) a ch \<longleftrightarrow> a = b"
      using True t smc b so by (auto simp: rootTranslationOf_def)
    show ?thesis
    proof (cases "a = b")
      case True
      with root IH s' show ?thesis by (simp add: vec3_scale_scale mult.commute)
    next
      case False
      with root IH s' show ?thesis by simp
    qed
  qed
qed

lemma removeAnimationsFrom_result:
  "removeAnimationsFrom ns sc as st = Inr st' \<Longrightarrow>
     samplerOutput st' = samplerOutput st \<and>
     disposedSamplers st' = disposedSamplers st \<union> \<Union> (set (map (set \<circ> samplers) as)) \<and>
     animations st' = (butlast ^^ length as) (animations st) \<and>
     (\<forall>a. accessors st' a =
        map (\<lambda>el. vec3_scale el (sc ^ length (filter (rootTranslationOf ns (samplerOutput st) a)
                                                 (concat (map channels as)))))
          (accessors st a))"
proof (induction as arbitrary: st')
  case Nil
  then show ?case by (simp add: vec3_scale_one)
next
  case (Cons an as)
  from Cons.prems obtain st1 kept st2 where r: "removeAnimationsFrom ns sc as st = Inr st1"
    and f: "filterChannels ns sc (channels an) st1 = Inr (kept, st2)"
    and s': "st' = st2\<lparr>disposedSamplers := disposedSamplers st2 \<union> set (samplers an),
                         animations := butlast (animations st2)\<rparr>"
    by (auto split: sum.splits)
  note IH = Cons.IH [OF r]
  note FR = filterChannels_frame [OF f]
  have FA: "accessors st2 a = map (\<lambda>el. vec3_scale el (sc ^ length (filter (rootTranslationOf ns (samplerOutput st1) a) (channels an))))
          (accessors st1 a)" for a
    using filterChannels_accessors [OF f] .
  show ?case
    using IH FR FA s' by (auto simp: vec3_scale_scale power_add mult.commute)
qed

lemma butlast_all: "(butlast ^^ length xs) xs = []"
proof -
  have "length ((butlast ^^ n) xs) = length xs - n" for n
    by (induction n) auto
  then have "length ((butlast ^^ length xs) xs) = 0" by simp
  then show ?thesis by simp
qed

lemma removeAnimations_result:
  assumes "removeAnimations ns sc st = Inr st'"
  shows "animations st' = []"
    and "disposedSamplers st' = disposedSamplers st \<union> \<Union> (set (map (set \<circ> samplers) (animations st)))"
    and "accessors st' a = map (\<lambda>el. vec3_scale el (sc ^ length (rootTranslations ns st a))) (accessors st a)"
  using removeAnimationsFrom_result [OF assms [unfolded removeAnimations_def]]
  by (simp_all add: butlast_all rootTranslations_def)


section \<open>Facts about rigid skinning\<close>

lemma foldl_update_length:
  "length (foldl (\<lambda>arr w. arr[f w := x]) zs ws) = length zs"
  by (induction ws arbitrary: zs) auto

lemma fill_foldl_append:
  "n * 4 \<le> length xs \<Longrightarrow>
     foldl (\<lambda>arr w. arr[w * 4 := x]) (xs @ ys) [0..<n] =
     foldl (\<lambda>arr w. arr[w * 4 := x]) xs [0..<n] @ ys"
proof (induction n)
  case 0
  then show ?case by simp
next
  case (Suc n)
  then have "n * 4 < length (foldl (\<lambda>arr w. arr[w * 4 := x]) xs [0..<n])"
    by (simp add: foldl_update_length)
  with Suc show ?case by (simp add: list_update_append)
qed

lemma fillFirstOfFour_Suc:
  "fillFirstOfFour x (Suc n) = fillFirstOfFour x n @ [x, 0, 0, 0]"
proof -
  have "replicate (n * 4 + 4) (0::'a) = replicate (n * 4) 0 @ replicate 4 0"
    by (rule replicate_add)
  moreover have "replicate 4 (0::'a) = [0, 0, 0, 0]"
    by (simp add: numeral_eq_Suc)
  ultimately have rep: "replicate (Suc n * 4) (0::'a) = replicate (n * 4) 0 @ [0, 0, 0, 0]"
    by (simp add: add.commute)
  have "fillFirstOfFour x (Suc n) =
      (foldl (\<lambda>arr w. arr[w * 4 := x]) (replicate (n * 4) 0 @ [0, 0, 0, 0]) [0..<n])[n * 4 := x]"
    unfolding fillFirstOfFour_def rep by simp
  also have "\<dots> = (foldl (\<lambda>arr w. arr[w * 4 := x]) (replicate (n * 4) 0) [0..<n] @ [0, 0, 0, 0])[n * 4 := x]"
    by (simp add: fill_foldl_append)
  also have "\<dots> = foldl (\<lambda>arr w. arr[w * 4 := x]) (replicate (n * 4) 0) [0..<n] @ [x, 0, 0, 0]"
    by (simp add: list_update_append foldl_update_length)
  finally show ?thesis by (simp add: fillFirstOfFour_def)
qed

lemma fillFirstOfFour_length: "length (fillFirstOfFour x n) = n * 4"
  by (simp add: fillFirstOfFour_def foldl_update_length)

lemma map_option_ident: "map_option (\<lambda>a. a) x = x"
  by (cases x) simp_all

lemma getElement4_fill:
  "w < n \<Longrightarrow> getElement4 (fillFirstOfFour x n) w = [x, 0, 0, 0]"
proof (induction n)
  case 0
  then show ?case by simp
next
  case (Suc n)
  show ?case
  proof (cases "w = n")
    case True
    then show ?thesis
      by (simp add: getElement4_def fillFirstOfFour_Suc fillFirstOfFour_length)
  next
    case False
    with Suc.prems have w: "w < n" by simp
    then have "w * 4 + 4 \<le> n * 4" by simp
    then show ?thesis
      using Suc.IH [OF w]
      by (simp add: getElement4_def fillFirstOfFour_Suc fillFirstOfFour_length)
  qed
qed

lemma transformMesh_length: "length (transformMesh ap prims m) = length prims"
  by (simp add: transformMesh_def)

lemma transformMesh_nth:
  "q < length prims \<Longrightarrow>
     transformMesh ap prims m ! q = (prims ! q)\<lparr>POSITION := map_option (map (ap m)) (POSITION (prims ! q))\<rparr>"
  by (simp add: transformMesh_def)

lemma skinPrimitives_result:
  "skinPrimitives ap k W ps (prims, m) = Inr (prims', m') \<Longrightarrow> \<forall>p \<in> set ps. p < length prims \<Longrightarrow>
     length prims' = length prims \<and>
     m' = (if ps = [] then m else mat4_identity) \<and>
     (\<forall>q < length prims.
        POSITION (prims' ! q) = map_option (map (ap W ^^ length ps)) (POSITION (prims ! q)) \<and>
        JOINTS_0 (prims' ! q) =
          (if q \<in> set ps then Some (joints_0_array k (length (the (POSITION (prims ! q)))))
           else JOINTS_0 (prims ! q)) \<and>
        WEIGHTS_0 (prims' ! q) =
          (if q \<in> set ps then Some (weights_0_array (length (the (POSITION (prims ! q)))))
           else WEIGHTS_0 (prims ! q)))"
proof (induction ps arbitrary: prims m)
  case Nil
  then show ?case by (simp add: map_option_ident)
next
  case (Cons p ps)
  from Cons.prems(1) obtain pos where pos: "POSITION (prims ! p) = Some pos"
    by (auto split: option.splits)
  define upd where "upd = prims[p := (prims ! p)
                  \<lparr>JOINTS_0 := Some (joints_0_array k (length pos)),
                   WEIGHTS_0 := Some (weights_0_array (length pos))\<rparr>]"
  define prims1 where "prims1 = transformMesh ap upd W"
  from Cons.prems(1) pos have r: "skinPrimitives ap k W ps (prims1, mat4_identity) = Inr (prims', m')"
    by (simp add: prims1_def upd_def)
  have l1: "length prims1 = length prims" by (simp add: prims1_def upd_def transformMesh_length)
  from Cons.prems(2) have rng: "\<forall>p \<in> set ps. p < length prims1" and p: "p < length prims"
    by (simp_all add: l1)
  note IH = Cons.IH [OF r rng]
  have step: "POSITION (prims1 ! q) = map_option (map (ap W)) (POSITION (prims ! q)) \<and>
      JOINTS_0 (prims1 ! q) = (if q = p then Some (joints_0_array k (length pos)) else JOINTS_0 (prims ! q)) \<and>
      WEIGHTS_0 (prims1 ! q) = (if q = p then Some (weights_0_array (length pos)) else WEIGHTS_0 (prims ! q))"
    if "q < length prims" for q
    using that by (simp add: prims1_def upd_def transformMesh_nth nth_list_update)
  have lenpos: "length (the (POSITION (prims1 ! q))) = length (the (POSITION (prims ! q)))"
    if "q < length prims" for q
    using step [OF that] by (cases "POSITION (prims ! q)") simp_all
  have comp: "map_option (map (ap W ^^ length ps)) (map_option (map (ap W)) x) =
      map_option (map (ap W ^^ length (p # ps))) x" for x
    by (cases x) (simp_all add: funpow_swap1)
  have "POSITION (prims' ! q) = map_option (map (ap W ^^ length (p # ps))) (POSITION (prims ! q)) \<and>
        JOINTS_0 (prims' ! q) =
          (if q \<in> set (p # ps) then Some (joints_0_array k (length (the (POSITION (prims ! q)))))
           else JOINTS_0 (prims ! q)) \<and>
        WEIGHTS_0 (prims' ! q) =
          (if q \<in> set (p # ps) then Some (weights_0_array (length (the (POSITION (prims ! q)))))
           else WEIGHTS_0 (prims ! q))"
    if q: "q < length prims" for q
  proof -
    from q have q1: "q < length prims1" by (simp add: l1)
    from IH q1 have a: "POSITION (prims' ! q) = map_option (map (ap W ^^ length ps)) (POSITION (prims1 ! q))"
      and b: "JOINTS_0 (prims' ! q) =
          (if q \<in> set ps then Some (joints_0_array k (length (the (POSITION (prims1 ! q)))))
           else JOINTS_0 (prims1 ! q))"
      and c: "WEIGHTS_0 (prims' ! q) =
          (if q \<in> set ps then Some (weights_0_array (length (the (POSITION (prims1 ! q)))))
           else WEIGHTS_0 (prims1 ! q))"
      by simp_all
    show ?thesis
      using a b c step [OF q] lenpos [OF q] pos by (auto simp: comp)
  qed
  moreover from IH have "length prims' = length prims" "m' = mat4_identity"
    by (simp_all add: l1)
  ultimately show ?case by (simp add: comp_def)
qed

lemma skinPrimitives_total:
  "\<forall>p \<in> set ps. p < length prims \<and> POSITION (prims ! p) \<noteq> None \<Longrightarrow>
     \<exists>r. skinPrimitives ap k W ps (prims, m) = Inr r"
proof (induction ps arbitrary: prims m)
  case Nil
  then show ?case by simp
next
  case (Cons p ps)
  from Cons.prems obtain pos where pos: "POSITION (prims ! p) = Some pos" by auto
  define prims1 where "prims1 = transformMesh ap (prims[p := (prims ! p)
                  \<lparr>JOINTS_0 := Some (joints_0_array k (length pos)),
                   WEIGHTS_0 := Some (weights_0_array (length pos))\<rparr>]) W"
  have "\<forall>q \<in> set ps. q < length prims1 \<and> POSITION (prims1 ! q) \<noteq> None"
    using Cons.prems
    by (auto simp: prims1_def transformMesh_length transformMesh_nth nth_list_update)
  from Cons.IH [OF this] show ?case using pos by (simp add: prims1_def)
qed

lemma example_findJointIndex:
  "findJointIndex (reparentToRoot W 6 exampleSceneNodes) exampleJointsTuples (exampleJointsIndex k) (Some 5)
     = Some (Some k)"
  by (subst findJointIndex.simps)
     (simp add: lookupJointIndex_def exampleJointsTuples_def exampleJointsIndex_def
        reparentToRoot_def exampleSceneNodes_def)

lemma processNode_skinned:
  assumes m: "mesh (sceneNodes st n) = Some mh"
    and p: "parentNode (sceneNodes st n) = Some par"
    and f: "findJointIndex (reparentToRoot (gw (sceneNodes st) n) n (sceneNodes st)) jt ji (Some par)
              = Some (Some k)"
    and pos: "\<forall>q < length (meshes st mh). POSITION (meshes st mh ! q) \<noteq> None"
  shows "\<exists>st'. processNode ap gw jt ji sc n st = Some (Inr st') \<and>
           length (meshes st' mh) = length (meshes st mh) \<and>
           matrix (sceneNodes st' n) = (if meshes st mh = [] then gw (sceneNodes st) n else mat4_identity) \<and>
           (\<forall>q < length (meshes st mh).
              POSITION (meshes st' mh ! q) =
                map_option (map ((ap (gw (sceneNodes st) n) ^^ length (meshes st mh))
                                   \<circ> ap (mat4_fromScaling sc sc sc)))
                  (POSITION (meshes st mh ! q)) \<and>
              JOINTS_0 (meshes st' mh ! q) =
                Some (joints_0_array k (length (the (POSITION (meshes st mh ! q))))) \<and>
              WEIGHTS_0 (meshes st' mh ! q) =
                Some (weights_0_array (length (the (POSITION (meshes st mh ! q))))))"
proof -
  define W where "W = gw (sceneNodes st) n"
  define prims1 where "prims1 = transformMesh ap (meshes st mh) (mat4_fromScaling sc sc sc)"
  have l1: "length prims1 = length (meshes st mh)" by (simp add: prims1_def transformMesh_length)
  have p1: "POSITION (prims1 ! q) = map_option (map (ap (mat4_fromScaling sc sc sc))) (POSITION (meshes st mh ! q))"
    if "q < length (meshes st mh)" for q
    using that by (simp add: prims1_def transformMesh_nth)
  have j1: "JOINTS_0 (prims1 ! q) = JOINTS_0 (meshes st mh ! q)"
     "WEIGHTS_0 (prims1 ! q) = WEIGHTS_0 (meshes st mh ! q)"
    if "q < length (meshes st mh)" for q
    using that by (simp_all add: prims1_def transformMesh_nth)
  have "\<forall>q \<in> set [0..<length prims1]. q < length prims1 \<and> POSITION (prims1 ! q) \<noteq> None"
    using pos p1 by (auto simp: l1)
  from skinPrimitives_total [OF this] obtain prims2 m2 where
    r: "skinPrimitives ap k W [0..<length prims1] (prims1, W) = Inr (prims2, m2)"
    by (metis surj_pair)
  have "\<forall>q \<in> set [0..<length prims1]. q < length prims1" by simp
  note R = skinPrimitives_result [OF r this]
  define st' where "st' = st\<lparr>sceneNodes :=
       (reparentToRoot W n (sceneNodes st))(n := (reparentToRoot W n (sceneNodes st) n)\<lparr>hasSkin := True, matrix := m2\<rparr>),
       sceneRoots := sceneRoots st @ [n],
       meshes := (meshes st)(mh := prims2)\<rparr>"
  have run: "processNode ap gw jt ji sc n st = Some (Inr st')"
    using m p f r by (simp add: processNode_def Let_def W_def prims1_def st'_def)
  have len: "length (meshes st' mh) = length (meshes st mh)"
    using R by (simp add: st'_def l1)
  have mat: "matrix (sceneNodes st' n) = (if meshes st mh = [] then W else mat4_identity)"
    using R l1 by (auto simp: st'_def)
  have each: "POSITION (meshes st' mh ! q) =
                map_option (map ((ap W ^^ length (meshes st mh)) \<circ> ap (mat4_fromScaling sc sc sc)))
                  (POSITION (meshes st mh ! q)) \<and>
              JOINTS_0 (meshes st' mh ! q) =
                Some (joints_0_array k (length (the (POSITION (meshes st mh ! q))))) \<and>
              WEIGHTS_0 (meshes st' mh ! q) =
                Some (weights_0_array (length (the (POSITION (meshes st mh ! q)))))"
    if q: "q < length (meshes st mh)" for q
  proof -
    from pos q obtain ps where ps: "POSITION (meshes st mh ! q) = Some ps" by auto
    from R q have "POSITION (prims2 ! q) = map_option (map (ap W ^^ length [0..<length prims1])) (POSITION (prims1 ! q))"
      and "JOINTS_0 (prims2 ! q) = Some (joints_0_array k (length (the (POSITION (prims1 ! q)))))"
      and "WEIGHTS_0 (prims2 ! q) = Some (weights_0_array (length (the (POSITION (prims1 ! q)))))"
      by (simp_all add: l1)
    then show ?thesis using p1 [OF q] ps by (simp add: st'_def l1)
  qed
  show ?thesis using run len mat each unfolding W_def by blast
qed

section \<open>The claims\<close>

lemmas splice_example_defs = exampleDocument_def exampleNodes_def identityInvert_def identityWorld_def
  noNodeProperty_def jointsOf_def matricesOf_def matrixOf_def jointCount_def matrixCount_def
  jointsIndexOf_def spliceTwice_def spliceSkeleton_def pruneAndRecompute_def graft_def pruneJoints_def
  recomputeInverseBindMatrices_def indexJointObjects_def indexJoints_def getProperty_def
  setProperty_def objectPrototypeProperties_def
  removeChild_def disposeNode_def mat4_zero_def mat4_identity_def

text \<open>
  Claim C5: with a donor scene that has no children the graft fails and the splice stops
  there. \<open>skinRoot\<close> is undefined, \<open>scene.addChild\<close> raises the TypeError on it, and
  that error is the result of the whole splice: no joint is pruned and no matrix is
  recomputed. The converter has no error classes of its own; this TypeError is the
  failure the specification calls MissingDonorRoot.
\<close>

theorem graft_without_donor_root_fails:
  assumes "sceneDonorChildren d = []"
  shows "graft d = Inl (TypeError ''skinRoot'') \<and>
         spliceSkeleton invert getWorldMatrix nodeProperty jointsToRemove d
           = Inl (TypeError ''skinRoot'')"
  using assms by (simp add: graft_def spliceSkeleton_def)

text \<open>Witness for C5: the example skeleton with an empty donor scene.\<close>

theorem graft_without_donor_root_fails_witness:
  "sceneDonorChildren (exampleDocument [] [1, 2]) = [] \<and>
   graft (exampleDocument [] [1, 2]) = Inl (TypeError ''skinRoot'') \<and>
   spliceSkeleton identityInvert identityWorld noNodeProperty [''Tail''] (exampleDocument [] [1, 2])
     = Inl (TypeError ''skinRoot'')"
proof -
  have h: "sceneDonorChildren (exampleDocument [] [1, 2]) = []"
    by (simp add: exampleDocument_def)
  show ?thesis
    using h graft_without_donor_root_fails
      [OF h, of identityInvert identityWorld noNodeProperty "[''Tail'']"]
    by simp
qed

text \<open>
  Counterexample for claim C3. Pruning the joint named Tail from a skin of the two
  joints Hips and Tail leaves one joint and a buffer of two matrices: the pruning block
  never touches the buffer.
\<close>

theorem prune_keeps_matrix_buffer_counterexample:
  "jointsOf (pruneJoints noNodeProperty [''Tail''] (exampleDocument [0] [1, 2])) = Some [1] \<and>
   jointCount (pruneJoints noNodeProperty [''Tail''] (exampleDocument [0] [1, 2])) = Some 1 \<and>
   matrixCount (pruneJoints noNodeProperty [''Tail''] (exampleDocument [0] [1, 2])) = Some 2"
  by (simp add: splice_example_defs)

text \<open>
  Claim C3, amended: pruning keeps exactly the joints that no name of the deny list
  resolves to, in their order, and leaves the buffer of inverse bind matrices as it was,
  so that the buffer is longer than the joint list by the number of joints removed. The
  recomputation that follows keeps the joints and replaces the buffer by the inverted
  world matrices of the remaining joints, one for each joint. When the joints of the
  skin have distinct names, no name of the deny list is a key of the joint index built
  from the remaining joints.
\<close>

theorem prune_then_recompute_lengths:
  assumes sk: "skin d = Some s"
    and pr: "pruneJoints nodeProperty jointsToRemove d = Inr d1"
    and re: "pruneAndRecompute invert getWorldMatrix nodeProperty jointsToRemove d = Inr d2"
  shows "jointsOf (Inr d1) =
           Some (filter (\<lambda>j. \<forall>n \<in> set jointsToRemove.
                   getProperty nodeProperty (indexJointObjects (nodes d) (joints s)) n \<noteq> JointNode j)
                 (joints s)) \<and>
         jointCount (Inr d1) =
           Some (length (joints s) -
                 length (filter (\<lambda>j. \<exists>n \<in> set jointsToRemove.
                    getProperty nodeProperty (indexJointObjects (nodes d) (joints s)) n = JointNode j)
                  (joints s))) \<and>
         matricesOf (Inr d1) = inverseBindMatrices s \<and>
         jointsOf (Inr d2) = jointsOf (Inr d1) \<and>
         matricesOf (Inr d2) =
           Option.bind (jointsOf (Inr d1))
             (\<lambda>js. those (map (\<lambda>j. invert (getWorldMatrix (nodes d1) j)) js)) \<and>
         matrixCount (Inr d2) = jointCount (Inr d2) \<and> jointCount (Inr d2) \<noteq> None \<and>
         (distinct (map (\<lambda>j. name (nodes d j)) (joints s)) \<longrightarrow>
            (\<forall>n \<in> set jointsToRemove. jointsIndexOf (Inr d2) n = None))"
proof -
  let ?removed = "\<lambda>j. \<exists>n \<in> set jointsToRemove.
      getProperty nodeProperty (indexJointObjects (nodes d) (joints s)) n = JointNode j"
  from pruneJoints_result [OF pr sk] obtain s1 where s1: "skin d1 = Some s1"
    and j1: "joints s1 = filter (\<lambda>j. \<forall>n \<in> set jointsToRemove.
                getProperty nodeProperty (indexJointObjects (nodes d) (joints s)) n \<noteq> JointNode j) (joints s)"
    and m1: "inverseBindMatrices s1 = inverseBindMatrices s"
    and n1: "\<forall>k. name (nodes d1 k) = name (nodes d k)"
    by blast
  have "joints s1 = filter (\<lambda>j. \<not> ?removed j) (joints s)"
    unfolding j1 by (rule filter_cong) auto
  then have "length (joints s1) + length (filter ?removed (joints s)) = length (joints s)"
    using sum_length_filter_compl [of ?removed "joints s"] by simp
  then have cnt: "length (joints s1) = length (joints s) - length (filter ?removed (joints s))"
    by simp
  from re pr have re1: "recomputeInverseBindMatrices invert getWorldMatrix d1 = Inr d2"
    by (simp add: pruneAndRecompute_def)
  from recompute_result [OF re1] s1 have n2: "nodes d2 = nodes d1"
    and s2: "skin d2 = Some (s1\<lparr>inverseBindMatrices :=
         Some (map (\<lambda>j. the (invert (getWorldMatrix (nodes d1) j))) (joints s1))\<rparr>)"
    by auto
  have "\<forall>j \<in> set (joints s1). invert (getWorldMatrix (nodes d1) j) \<noteq> None"
    using recompute_invertible [OF re1 s1] by blast
  then have th: "those (map (\<lambda>j. invert (getWorldMatrix (nodes d1) j)) (joints s1)) =
      Some (map (\<lambda>j. the (invert (getWorldMatrix (nodes d1) j))) (joints s1))"
    by (rule those_map_Some)
  have names: "indexJoints (nodes d2) (joints s1) n = None"
    if dist: "distinct (map (\<lambda>j. name (nodes d j)) (joints s))" and n: "n \<in> set jointsToRemove" for n
  proof -
    have "n \<noteq> name (nodes d j)" if "j \<in> set (joints s1)" for j
      using pruned_names_gone [OF dist] that n unfolding j1 by blast
    then show ?thesis by (auto simp: indexJoints_None n2 n1)
  qed
  show ?thesis
    using s1 m1 s2 names j1 cnt th
    by (simp add: matricesOf_def jointsOf_def matrixCount_def jointCount_def jointsIndexOf_def)
qed

text \<open>Witness for C3: the skin of the joints Hips and Tail, with Tail on the deny list.\<close>

theorem prune_then_recompute_lengths_witness:
  "jointsOf (pruneJoints noNodeProperty [''Tail''] (exampleDocument [0] [1, 2])) = Some [1] \<and>
   matrixCount (pruneJoints noNodeProperty [''Tail''] (exampleDocument [0] [1, 2])) = Some 2 \<and>
   matrixCount (pruneAndRecompute identityInvert identityWorld noNodeProperty [''Tail'']
                  (exampleDocument [0] [1, 2]))
     = jointCount (pruneAndRecompute identityInvert identityWorld noNodeProperty [''Tail'']
                     (exampleDocument [0] [1, 2])) \<and>
   jointCount (pruneAndRecompute identityInvert identityWorld noNodeProperty [''Tail'']
                 (exampleDocument [0] [1, 2])) = Some 1 \<and>
   jointsIndexOf (pruneAndRecompute identityInvert identityWorld noNodeProperty [''Tail'']
                    (exampleDocument [0] [1, 2])) ''Tail'' = None"
proof -
  let ?d = "exampleDocument [0] [1, 2]"
  let ?s = "\<lparr>skeleton = None, joints = [1, 2],
             inverseBindMatrices = Some (replicate (length [1, 2 :: nat]) mat4_identity)\<rparr>"
  let ?p = "pruneJoints noNodeProperty [''Tail''] ?d"
  let ?r = "pruneAndRecompute identityInvert identityWorld noNodeProperty [''Tail''] ?d"
  have sk: "skin ?d = Some ?s" by (simp add: exampleDocument_def)
  have pr: "?p = Inr (projr ?p)" by (simp add: splice_example_defs)
  have re: "?r = Inr (projr ?r)" by (simp add: splice_example_defs)
  have dist: "distinct (map (\<lambda>j. name (nodes ?d j)) (joints ?s))"
    by (simp add: exampleDocument_def exampleNodes_def)
  from prune_then_recompute_lengths [OF sk pr re] dist
  have "matrixCount ?r = jointCount ?r \<and> jointsIndexOf ?r ''Tail'' = None"
    unfolding pr [symmetric] re [symmetric] by simp
  moreover have "jointCount ?r = Some 1" "matrixCount ?p = Some 2" "jointsOf ?p = Some [1]"
    by (simp_all add: splice_example_defs)
  ultimately show ?thesis by simp
qed







text \<open>
  The other case of the second run: with the joint named constructor on the deny list,
  the first run removes it and the second run reads the inherited
  \<open>Object.prototype.constructor\<close> under that name and stops.
\<close>

lemma second_run_inherited_name_example:
  "jointsOf (spliceSkeleton identityInvert identityWorld noNodeProperty [''constructor'']
               (exampleDocument [0] [1, 9])) = Some [1] \<and>
   spliceTwice identityInvert identityWorld noNodeProperty [''constructor''] [10]
     (exampleDocument [0] [1, 9]) = Inl (TypeError ''joint.getParentNode'')"
  by (simp add: splice_example_defs)

lemmas animation_example_defs = exampleAnimations_def exampleChannel_def exampleTargets_def
  removeAnimations_def keptOf_def animationsOf_def accessorOf_def getSampler_def vec3_scale_def

text \<open>
  Counterexample for claim C1. An animation whose only channel rotates the node Hips
  keeps that channel through the channel loop, and is disposed all the same: the
  document has no animation left.
\<close>
theorem rotation_animation_released_counterexample:
  "keptOf (filterChannels exampleTargets scale [exampleChannel 1 ''rotation'' 2]
             (exampleAnimations [[exampleChannel 1 ''rotation'' 2]]))
     = Some [exampleChannel 1 ''rotation'' 2] \<and>
   animationsOf (removeAnimations exampleTargets scale
                   (exampleAnimations [[exampleChannel 1 ''rotation'' 2]])) = Some []"
  by (simp add: animation_example_defs)

text \<open>
  Claim C1, amended: the channel loop leaves a channel of a node other than
  Controller-Global in its animation exactly when its path is rotation; after the
  channels of an animation are filtered, all samplers of the animation and the animation
  itself are released, whether or not channels are left. No animation is retained.
\<close>

theorem filter_keeps_rotation_releases_all:
  assumes "removeAnimations ns sc st = Inr st'"
  shows "animations st' = [] \<and>
         (\<forall>an \<in> set (animations st). set (samplers an) \<subseteq> disposedSamplers st') \<and>
         (\<forall>chs st0 kept st1. filterChannels ns sc chs st0 = Inr (kept, st1) \<longrightarrow>
            kept = filter (keepChannel ns) chs) \<and>
         (\<forall>ch target. targetNode ch = Some target \<and> name (ns target) \<noteq> ''Controller-Global'' \<longrightarrow>
            keepChannel ns ch = (targetPath ch = ''rotation''))"
proof -
  have "animations st' = []"
    using removeAnimations_result(1) [OF assms] .
  moreover have "\<forall>an \<in> set (animations st). set (samplers an) \<subseteq> disposedSamplers st'"
    using removeAnimations_result(2) [OF assms] by auto
  moreover have "\<forall>chs st0 kept st1. filterChannels ns sc chs st0 = Inr (kept, st1) \<longrightarrow>
            kept = filter (keepChannel ns) chs"
    using filterChannels_kept by blast
  moreover have "\<forall>ch target. targetNode ch = Some target \<and> name (ns target) \<noteq> ''Controller-Global'' \<longrightarrow>
            keepChannel ns ch = (targetPath ch = ''rotation'')"
    by (simp add: keepChannel_def)
  ultimately show ?thesis by blast
qed

text \<open>Witness for C1: an animation rotating and translating the node Hips.\<close>

theorem filter_keeps_rotation_releases_all_witness:
  "animationsOf (removeAnimations exampleTargets scale
       (exampleAnimations [[exampleChannel 1 ''rotation'' 2, exampleChannel 1 ''translation'' 1]]))
     = Some [] \<and>
   keptOf (filterChannels exampleTargets scale
             [exampleChannel 1 ''rotation'' 2, exampleChannel 1 ''translation'' 1]
             (exampleAnimations [])) = Some [exampleChannel 1 ''rotation'' 2]"
proof -
  let ?st = "exampleAnimations [[exampleChannel 1 ''rotation'' 2, exampleChannel 1 ''translation'' 1]]"
  let ?r = "removeAnimations exampleTargets scale ?st"
  have run: "?r = Inr (projr ?r)" by (simp add: animation_example_defs)
  from filter_keeps_rotation_releases_all [OF run]
  have "animations (projr ?r) = []" by blast
  then have "animationsOf (Inr (projr ?r)) = Some []" by (simp add: animationsOf_def)
  then have "animationsOf ?r = Some []" unfolding run [symmetric] .
  moreover have "keptOf (filterChannels exampleTargets scale
             [exampleChannel 1 ''rotation'' 2, exampleChannel 1 ''translation'' 1]
             (exampleAnimations [])) = Some [exampleChannel 1 ''rotation'' 2]"
    by (simp add: animation_example_defs)
  ultimately show ?thesis by simp
qed

text \<open>
  Claim C7 against the code. Two animations each translate Controller-Global, and their
  samplers write to the same accessor, as glTF allows. The loop scales the accessor in
  place once for each of the two channels, so the keyframe (10, 0, 0) becomes
  (0.0123904, 0, 0), while one animation alone turns it into (0.352, 0, 0), the value
  times 0.0352 of the claim.
\<close>

theorem shared_accessor_scaled_twice:
  "accessorOf (removeAnimations exampleTargets scale
       (exampleAnimations [[exampleChannel 0 ''translation'' 0], [exampleChannel 0 ''translation'' 4]])) 0
     = Some [[0.0123904, 0, 0]] \<and>
   accessorOf (removeAnimations exampleTargets scale
       (exampleAnimations [[exampleChannel 0 ''translation'' 0]])) 0
     = Some [[0.352, 0, 0]]"
  by (simp add: animation_example_defs scale_def)

text \<open>
  In general the scale factor is 0.0352, the channel loop keeps every translation
  channel of Controller-Global, and an accessor is multiplied by the factor once for
  each such channel whose sampler writes to it: once when the accessor is not shared.
\<close>

lemma root_translation_scaled:
  assumes "removeAnimations ns scale st = Inr st'"
  shows "scale = 0.0352 \<and>
         accessors st' a =
           map (\<lambda>element. vec3_scale element (scale ^ length (rootTranslations ns st a))) (accessors st a) \<and>
         (length (rootTranslations ns st a) = 1 \<longrightarrow>
            accessors st' a = map (\<lambda>element. vec3_scale element 0.0352) (accessors st a)) \<and>
         vec3_scale [10, 0, 0] scale = [0.352, 0, 0] \<and>
         (\<forall>chs st0 kept st1 ch target.
            filterChannels ns scale chs st0 = Inr (kept, st1) \<and> ch \<in> set chs \<and>
            targetNode ch = Some target \<and> name (ns target) = ''Controller-Global'' \<and>
            targetPath ch = ''translation'' \<longrightarrow> ch \<in> set kept)"
proof -
  have sc: "scale = 0.0352" by (simp add: scale_def)
  have acc: "accessors st' a =
      map (\<lambda>element. vec3_scale element (scale ^ length (rootTranslations ns st a))) (accessors st a)"
    using removeAnimations_result(3) [OF assms] .
  have one: "length (rootTranslations ns st a) = 1 \<longrightarrow>
            accessors st' a = map (\<lambda>element. vec3_scale element 0.0352) (accessors st a)"
    using acc unfolding sc by auto
  have ex: "vec3_scale [10, 0, 0] scale = [0.352, 0, 0]"
    by (simp add: vec3_scale_def scale_def)
  have kept: "ch \<in> set kept"
    if "filterChannels ns scale chs st0 = Inr (kept, st1)" "ch \<in> set chs"
      "targetNode ch = Some target" "name (ns target) = ''Controller-Global''"
      "targetPath ch = ''translation''" for chs st0 kept st1 ch target
    using filterChannels_kept [OF that(1)] that(2-5) by (simp add: keepChannel_def)
  show ?thesis using sc acc one ex kept by blast
qed

text \<open>An instance: one animation translating Controller-Global and rotating Hips.\<close>

lemma root_translation_scaled_example:
  "accessorOf (removeAnimations exampleTargets scale
       (exampleAnimations [[exampleChannel 0 ''translation'' 0, exampleChannel 1 ''rotation'' 2]])) 0
     = Some [[0.352, 0, 0]] \<and>
   keptOf (filterChannels exampleTargets scale
             [exampleChannel 0 ''translation'' 0, exampleChannel 0 ''scale'' 1]
             (exampleAnimations [])) = Some [exampleChannel 0 ''translation'' 0]"
proof -
  let ?st = "exampleAnimations [[exampleChannel 0 ''translation'' 0, exampleChannel 1 ''rotation'' 2]]"
  let ?r = "removeAnimations exampleTargets scale ?st"
  have run: "?r = Inr (projr ?r)" by (simp add: animation_example_defs)
  have one: "length (rootTranslations exampleTargets ?st 0) = 1"
    by (simp add: rootTranslations_def rootTranslationOf_def animation_example_defs)
  from root_translation_scaled [OF run, of 0] one
  have "accessors (projr ?r) 0 = map (\<lambda>element. vec3_scale element 0.0352) (accessors ?st 0)"
    by blast
  then have "accessors (projr ?r) 0 = [[0.352, 0, 0]]"
    by (simp add: exampleAnimations_def vec3_scale_def)
  then have "accessorOf (Inr (projr ?r)) 0 = Some [[0.352, 0, 0]]" by (simp add: accessorOf_def)
  then have "accessorOf ?r 0 = Some [[0.352, 0, 0]]" unfolding run [symmetric] .
  moreover have "keptOf (filterChannels exampleTargets scale
             [exampleChannel 0 ''translation'' 0, exampleChannel 0 ''scale'' 1]
             (exampleAnimations [])) = Some [exampleChannel 0 ''translation'' 0]"
    by (simp add: animation_example_defs)
  ultimately show ?thesis by simp
qed


lemmas mesh_example_defs = exampleMeshDocument_def exampleSceneNodes_def examplePrimitive_def

lemma example_mesh_node:
  "mesh (sceneNodes (exampleMeshDocument prims) 6) = Some 0"
  "parentNode (sceneNodes (exampleMeshDocument prims) 6) = Some 5"
  "meshes (exampleMeshDocument prims) 0 = prims"
  by (simp_all add: mesh_example_defs)

lemma example_walk:
  "findJointIndex
     (reparentToRoot (exampleWorldMatrix (sceneNodes (exampleMeshDocument prims)) 6) 6
        (sceneNodes (exampleMeshDocument prims)))
     exampleJointsTuples (exampleJointsIndex k) (Some 5) = Some (Some k)"
  by (simp add: exampleMeshDocument_def example_findJointIndex)

lemma example_positions:
  "\<forall>q < length (meshes (exampleMeshDocument [examplePrimitive a, examplePrimitive b]) 0).
      POSITION (meshes (exampleMeshDocument [examplePrimitive a, examplePrimitive b]) 0 ! q) \<noteq> None"
  by (simp add: mesh_example_defs nth_Cons split: nat.splits)

lemma unat_joint: "unat (of_nat k :: 8 word) = k mod 256"
  by (simp add: unat_of_nat)

lemma processNode_attributes:
  assumes m: "mesh (sceneNodes st n) = Some mh"
    and p: "parentNode (sceneNodes st n) = Some par"
    and f: "findJointIndex (reparentToRoot (gw (sceneNodes st) n) n (sceneNodes st)) jt ji (Some par)
              = Some (Some k)"
    and pos: "\<forall>q < length (meshes st mh). POSITION (meshes st mh ! q) \<noteq> None"
    and q: "q < length (meshes st mh)"
    and w: "w < length (the (POSITION (meshes st mh ! q)))"
  shows "jointsElementOf (processNode ap gw jt ji sc n st) mh q w = Some [k mod 256, 0, 0, 0]"
    and "weightsElementOf (processNode ap gw jt ji sc n st) mh q w = Some [1, 0, 0, 0]"
    and "positionsOf (processNode ap gw jt ji sc n st) mh q =
           map_option (map ((ap (gw (sceneNodes st) n) ^^ length (meshes st mh))
                              \<circ> ap (mat4_fromScaling sc sc sc))) (POSITION (meshes st mh ! q))"
proof -
  from processNode_skinned [where gw = gw and ap = ap and sc = sc, OF m p f pos] obtain st' where
    run: "processNode ap gw jt ji sc n st = Some (Inr st')"
    and len: "length (meshes st' mh) = length (meshes st mh)"
    and ps: "POSITION (meshes st' mh ! q) =
                map_option (map ((ap (gw (sceneNodes st) n) ^^ length (meshes st mh))
                                   \<circ> ap (mat4_fromScaling sc sc sc)))
                  (POSITION (meshes st mh ! q))"
    and j: "JOINTS_0 (meshes st' mh ! q) = Some (joints_0_array k (length (the (POSITION (meshes st mh ! q)))))"
    and ws: "WEIGHTS_0 (meshes st' mh ! q) = Some (weights_0_array (length (the (POSITION (meshes st mh ! q)))))"
    using q by blast
  show "jointsElementOf (processNode ap gw jt ji sc n st) mh q w = Some [k mod 256, 0, 0, 0]"
    using run len j q w
    by (simp add: jointsElementOf_def primitiveOf_def joints_0_array_def getElement4_fill unat_joint)
  show "weightsElementOf (processNode ap gw jt ji sc n st) mh q w = Some [1, 0, 0, 0]"
    using run len ws q w
    by (simp add: weightsElementOf_def primitiveOf_def weights_0_array_def getElement4_fill)
  show "positionsOf (processNode ap gw jt ji sc n st) mh q =
           map_option (map ((ap (gw (sceneNodes st) n) ^^ length (meshes st mh))
                              \<circ> ap (mat4_fromScaling sc sc sc))) (POSITION (meshes st mh ! q))"
    using run len ps q by (simp add: positionsOf_def primitiveOf_def)
qed

text \<open>
  In the example the loop over the collected nodes 4, 5 and 6 leaves the nodes 4 and 5
  as they are, since they carry no mesh and their names do not end in -Local, and then
  processes node 6.
\<close>

lemma processNode_plain:
  "mesh (sceneNodes st n) = None \<Longrightarrow> \<not> endsWith (name (sceneNodes st n)) ''-Local'' \<Longrightarrow>
     processNode ap gw jt ji sc n st = Some (Inr st)"
  by (simp add: processNode_def Let_def)

lemma processNodes_single:
  "processNodes ap gw jt ji sc [n] st = processNode ap gw jt ji sc n st"
  by (simp split: option.splits sum.splits)

lemma example_loop:
  "processNodes ap gw jt ji sc [4, 5, 6] (exampleMeshDocument prims)
     = processNode ap gw jt ji sc 6 (exampleMeshDocument prims)"
proof -
  have a: "processNode ap gw jt ji sc 4 (exampleMeshDocument prims) = Some (Inr (exampleMeshDocument prims))"
    by (rule processNode_plain) (simp_all add: mesh_example_defs endsWith_def)
  have b: "processNode ap gw jt ji sc 5 (exampleMeshDocument prims) = Some (Inr (exampleMeshDocument prims))"
    by (rule processNode_plain) (simp_all add: mesh_example_defs endsWith_def)
  have "processNodes ap gw jt ji sc [4, 5, 6] (exampleMeshDocument prims)
      = processNodes ap gw jt ji sc [6] (exampleMeshDocument prims)"
    by (simp add: a b)
  then show ?thesis by (simp only: processNodes_single)
qed

text \<open>
  Claim C2 against the code: the scene holds the nodes World-Global, Body-Global and
  Body-Mesh, each the child of the one before; Body-Mesh carries a mesh of two
  primitives and Body-Global is mapped to joint 3. \<open>transformMesh(mesh, worldTransform)\<close>
  stands inside the loop over the primitives, so the world transform (here the scaling
  by 2) reaches every vertex of the mesh once for each primitive: twice, after the
  scaling by \<open>scale\<close>.
\<close>
theorem world_transform_applied_once_per_primitive:
  "positionsOf (processNodes (#) exampleWorldMatrix exampleJointsTuples (exampleJointsIndex 3) scale
       [4, 5, 6] (exampleMeshDocument [examplePrimitive 1, examplePrimitive 1])) 0 0
     = Some [[mat4_fromScaling 2 2 2, mat4_fromScaling 2 2 2, mat4_fromScaling scale scale scale]]"
proof -
  have q: "(0::nat) < length (meshes (exampleMeshDocument [examplePrimitive 1, examplePrimitive 1]) 0)"
    by (simp add: example_mesh_node)
  have w: "(0::nat) < length (the (POSITION
      (meshes (exampleMeshDocument [examplePrimitive 1, examplePrimitive 1]) 0 ! 0)))"
    by (simp add: example_mesh_node examplePrimitive_def)
  show ?thesis
    unfolding example_loop
    using processNode_attributes(3) [where gw = exampleWorldMatrix and ap = "(#)" and sc = scale,
      OF example_mesh_node(1) example_mesh_node(2) example_walk example_positions q w]
    by (simp add: example_mesh_node exampleWorldMatrix_def examplePrimitive_def numeral_2_eq_2)
qed

text \<open>
  Counterexample for claim C6: in the scene of World-Global, Body-Global and Body-Mesh,
  with Body-Global mapped to the joint of index 256 of a skeleton of more than 256
  joints, the vertices of the mesh carry the joint element (0, 0, 0, 0).
\<close>
theorem joint_index_256_counterexample:
  "jointsElementOf (processNodes (#) exampleWorldMatrix exampleJointsTuples (exampleJointsIndex 256) scale
       [4, 5, 6] (exampleMeshDocument [examplePrimitive 1, examplePrimitive 1])) 0 0 0
     = Some [0, 0, 0, 0]"
proof -
  have q: "(0::nat) < length (meshes (exampleMeshDocument [examplePrimitive 1, examplePrimitive 1]) 0)"
    by (simp add: example_mesh_node)
  have w: "(0::nat) < length (the (POSITION
      (meshes (exampleMeshDocument [examplePrimitive 1, examplePrimitive 1]) 0 ! 0)))"
    by (simp add: example_mesh_node examplePrimitive_def)
  show ?thesis
    unfolding example_loop
    using processNode_attributes(1) [where gw = exampleWorldMatrix and ap = "(#)" and sc = scale,
      OF example_mesh_node(1) example_mesh_node(2) example_walk example_positions q w]
    by simp
qed

text \<open>
  Claim C6, amended: when the walk up the parents of a mesh node ends at joint index
  \<open>k\<close> and every primitive of its mesh has positions, every vertex of every primitive
  has the weights (1, 0, 0, 0) and the joint element (k mod 256, 0, 0, 0), which is
  (k, 0, 0, 0) when \<open>k\<close> is less than 256.
\<close>

theorem rigid_skin_attributes:
  assumes "mesh (sceneNodes st n) = Some mh"
    and "parentNode (sceneNodes st n) = Some par"
    and "findJointIndex (reparentToRoot (getWorldMatrix (sceneNodes st) n) n (sceneNodes st))
           jointsTuples jointsIndex (Some par) = Some (Some k)"
    and "\<forall>q < length (meshes st mh). POSITION (meshes st mh ! q) \<noteq> None"
    and "q < length (meshes st mh)"
    and "w < length (the (POSITION (meshes st mh ! q)))"
  shows "jointsElementOf (processNode transform getWorldMatrix jointsTuples jointsIndex sc n st) mh q w
           = Some [k mod 256, 0, 0, 0] \<and>
         weightsElementOf (processNode transform getWorldMatrix jointsTuples jointsIndex sc n st) mh q w
           = Some [1, 0, 0, 0] \<and>
         (k < 256 \<longrightarrow>
            jointsElementOf (processNode transform getWorldMatrix jointsTuples jointsIndex sc n st) mh q w
              = Some [k, 0, 0, 0])"
  using processNode_attributes(1,2) [where gw = getWorldMatrix and ap = transform and sc = sc, OF assms]
  by simp

text \<open>Witness for C6: joint index 3, the second primitive, its first vertex.\<close>

theorem rigid_skin_attributes_witness:
  "jointsElementOf (processNode (#) exampleWorldMatrix exampleJointsTuples (exampleJointsIndex 3) scale 6
       (exampleMeshDocument [examplePrimitive 2, examplePrimitive 1])) 0 1 0 = Some [3, 0, 0, 0] \<and>
   weightsElementOf (processNode (#) exampleWorldMatrix exampleJointsTuples (exampleJointsIndex 3) scale 6
       (exampleMeshDocument [examplePrimitive 2, examplePrimitive 1])) 0 1 0 = Some [1, 0, 0, 0]"
proof -
  have q: "(1::nat) < length (meshes (exampleMeshDocument [examplePrimitive 2, examplePrimitive 1]) 0)"
    by (simp add: example_mesh_node)
  have w: "(0::nat) < length (the (POSITION
      (meshes (exampleMeshDocument [examplePrimitive 2, examplePrimitive 1]) 0 ! 1)))"
    by (simp add: example_mesh_node examplePrimitive_def)
  show ?thesis
    using rigid_skin_attributes [where getWorldMatrix = exampleWorldMatrix and transform = "(#)"
        and sc = scale, OF example_mesh_node(1) example_mesh_node(2) example_walk example_positions q w]
    by simp
qed

text \<open>
  Claim C10: the joint index written to a vertex is the resolved joint index modulo 256,
  and it is the resolved index itself exactly when that index is less than 256.
\<close>
theorem joint_index_stored_mod_256:
  assumes "mesh (sceneNodes st n) = Some mh"
    and "parentNode (sceneNodes st n) = Some par"
    and "findJointIndex (reparentToRoot (getWorldMatrix (sceneNodes st) n) n (sceneNodes st))
           jointsTuples jointsIndex (Some par) = Some (Some k)"
    and "\<forall>q < length (meshes st mh). POSITION (meshes st mh ! q) \<noteq> None"
    and "q < length (meshes st mh)"
    and "w < length (the (POSITION (meshes st mh ! q)))"
  shows "jointsElementOf (processNode transform getWorldMatrix jointsTuples jointsIndex sc n st) mh q w
           = Some [k mod 256, 0, 0, 0] \<and>
         (jointsElementOf (processNode transform getWorldMatrix jointsTuples jointsIndex sc n st) mh q w
            = Some [k, 0, 0, 0]) = (k < 256)"
proof -
  have "jointsElementOf (processNode transform getWorldMatrix jointsTuples jointsIndex sc n st) mh q w
           = Some [k mod 256, 0, 0, 0]"
    using processNode_attributes(1) [where gw = getWorldMatrix and ap = transform and sc = sc, OF assms] .
  then show ?thesis by auto
qed

text \<open>Witness for C10: joint index 300 is stored as 44.\<close>

theorem joint_index_stored_mod_256_witness:
  "jointsElementOf (processNode (#) exampleWorldMatrix exampleJointsTuples (exampleJointsIndex 300) scale 6
       (exampleMeshDocument [examplePrimitive 2, examplePrimitive 1])) 0 0 1 = Some [44, 0, 0, 0] \<and>
   jointsElementOf (processNode (#) exampleWorldMatrix exampleJointsTuples (exampleJointsIndex 300) scale 6
       (exampleMeshDocument [examplePrimitive 2, examplePrimitive 1])) 0 0 1 \<noteq> Some [300, 0, 0, 0]"
proof -
  have q: "(0::nat) < length (meshes (exampleMeshDocument [examplePrimitive 2, examplePrimitive 1]) 0)"
    by (simp add: example_mesh_node)
  have w: "(1::nat) < length (the (POSITION
      (meshes (exampleMeshDocument [examplePrimitive 2, examplePrimitive 1]) 0 ! 0)))"
    by (simp add: example_mesh_node examplePrimitive_def)
  show ?thesis
    using joint_index_stored_mod_256 [where getWorldMatrix = exampleWorldMatrix and transform = "(#)"
        and sc = scale, OF example_mesh_node(1) example_mesh_node(2) example_walk example_positions q w]
    by simp
qed

section \<open>Facts about the atlas layout\<close>

lemma atlasWidth_upper: "n \<le> atlasWidth n * atlasWidth n"
proof -
  have "sqrt (real n) \<le> real (atlasWidth n)"
    by (simp add: atlasWidth_def)
  then have "sqrt (real n) * sqrt (real n) \<le> real (atlasWidth n) * real (atlasWidth n)"
    by (intro mult_mono) simp_all
  then have "real n \<le> real (atlasWidth n * atlasWidth n)" by simp
  then show ?thesis by linarith
qed

lemma atlasWidth_least: "n \<le> g * g \<Longrightarrow> atlasWidth n \<le> g"
proof -
  assume "n \<le> g * g"
  then have "real n \<le> real g * real g" by (metis of_nat_le_iff of_nat_mult)
  then have "sqrt (real n) \<le> real g" by (simp add: real_le_lsqrt power2_eq_square)
  then have "\<lceil>sqrt (real n)\<rceil> \<le> int g"
    using ceiling_le_iff [of "sqrt (real n)" "int g"] by simp
  then have "nat \<lceil>sqrt (real n)\<rceil> \<le> g" by linarith
  then show ?thesis by (simp only: atlasWidth_def)
qed

lemma atlasWidth_5: "atlasWidth 5 = 3"
proof -
  have "atlasWidth 5 \<le> 3" by (rule atlasWidth_least) simp
  moreover have "\<not> atlasWidth 5 \<le> 2"
  proof
    assume "atlasWidth 5 \<le> 2"
    then have "atlasWidth 5 * atlasWidth 5 \<le> 2 * 2" by (intro mult_le_mono)
    with atlasWidth_upper [of 5] show False by simp
  qed
  ultimately show ?thesis by simp
qed

text \<open>
  Claim C8: the grid side is the ceiling of the square root of the number of primitives,
  that is the least \<open>g\<close> with \<open>n \<le> g * g\<close>; the atlas measures 64 pixels for each cell
  of a side; slot \<open>s\<close> lies in column \<open>s mod g\<close> and row \<open>s div g\<close>, both inside the
  grid, and its coordinates are remapped as the specification says. For five primitives
  the side is 3, slot 0 is row 0 and column 0, slot 3 is row 1 and column 0, and
  (0.5, 0.5) in slot 3 becomes (1/6, 0.5), which is (0.1667, 0.5) to four places.
\<close>
theorem atlas_layout:
  "atlasWidth n = nat \<lceil>sqrt (real n)\<rceil> \<and>
   n \<le> atlasWidth n * atlasWidth n \<and> (\<forall>g. n \<le> g * g \<longrightarrow> atlasWidth n \<le> g) \<and>
   targetAtlasSize n = atlasWidth n * 64 \<and>
   (\<forall>s < n. atlasColumn s (atlasWidth n) = s mod atlasWidth n \<and>
             atlasRow s (atlasWidth n) = s div atlasWidth n \<and>
             atlasColumn s (atlasWidth n) < atlasWidth n \<and> atlasRow s (atlasWidth n) < atlasWidth n \<and>
             (\<forall>u v. remapUv s (atlasWidth n) (u, v) =
                ((u + real (s mod atlasWidth n)) / real (atlasWidth n),
                 (v + real (s div atlasWidth n)) / real (atlasWidth n)))) \<and>
   atlasWidth 5 = 3 \<and> targetAtlasSize 5 = 192 \<and>
   atlasRow 0 (atlasWidth 5) = 0 \<and> atlasColumn 0 (atlasWidth 5) = 0 \<and>
   atlasRow 3 (atlasWidth 5) = 1 \<and> atlasColumn 3 (atlasWidth 5) = 0 \<and>
   remapUv 3 (atlasWidth 5) (0.5, 0.5) = (1 / 6, 0.5) \<and> \<bar>1 / 6 - 0.1667\<bar> < (0.00005 :: real)"
proof -
  have grid: "atlasColumn s (atlasWidth n) < atlasWidth n \<and> atlasRow s (atlasWidth n) < atlasWidth n"
    if "s < n" for s
  proof -
    from that atlasWidth_upper [of n] have lt: "s < atlasWidth n * atlasWidth n" by simp
    then have pos: "0 < atlasWidth n" by (cases "atlasWidth n") simp_all
    from lt have "s div atlasWidth n < atlasWidth n"
      by (simp add: less_mult_imp_div_less)
    with pos show ?thesis by (simp add: atlasColumn_def atlasRow_def)
  qed
  have c1: "atlasWidth n = nat \<lceil>sqrt (real n)\<rceil>" by (simp add: atlasWidth_def)
  have c2: "n \<le> atlasWidth n * atlasWidth n" by (rule atlasWidth_upper)
  have c3: "\<forall>g. n \<le> g * g \<longrightarrow> atlasWidth n \<le> g"
    using atlasWidth_least by blast
  have c4: "targetAtlasSize n = atlasWidth n * 64" by (simp add: targetAtlasSize_def)
  have c5: "\<forall>s < n. atlasColumn s (atlasWidth n) = s mod atlasWidth n \<and>
             atlasRow s (atlasWidth n) = s div atlasWidth n \<and>
             atlasColumn s (atlasWidth n) < atlasWidth n \<and> atlasRow s (atlasWidth n) < atlasWidth n \<and>
             (\<forall>u v. remapUv s (atlasWidth n) (u, v) =
                ((u + real (s mod atlasWidth n)) / real (atlasWidth n),
                 (v + real (s div atlasWidth n)) / real (atlasWidth n)))"
    using grid by (simp add: atlasColumn_def atlasRow_def remapUv_def)
  have c6: "atlasWidth 5 = 3" by (rule atlasWidth_5)
  have c7: "targetAtlasSize 5 = 192" by (simp add: targetAtlasSize_def atlasWidth_5)
  have c8: "atlasRow 0 (atlasWidth 5) = 0" "atlasColumn 0 (atlasWidth 5) = 0"
     "atlasRow 3 (atlasWidth 5) = 1" "atlasColumn 3 (atlasWidth 5) = 0"
    by (simp_all add: atlasWidth_5 atlasColumn_def atlasRow_def)
  have c9: "remapUv 3 (atlasWidth 5) (0.5, 0.5) = (1 / 6, 0.5)"
    by (simp add: atlasWidth_5 remapUv_def atlasColumn_def atlasRow_def)
  have c10: "\<bar>1 / 6 - 0.1667\<bar> < (0.00005 :: real)" by simp
  show ?thesis
    by (intro conjI) (rule c1 c2 c3 c4 c5 c6 c7 c8 c9 c10)+
qed

text \<open>Witness for C8: five primitives, the bound 3 and slot 4.\<close>

theorem atlas_layout_witness:
  "(5::nat) \<le> 3 * 3 \<and> atlasWidth 5 \<le> 3 \<and> (4::nat) < 5 \<and>
   atlasColumn 4 (atlasWidth 5) = 1 \<and> atlasRow 4 (atlasWidth 5) = 1 \<and>
   remapUv 4 (atlasWidth 5) (0.5, 0.5) = (0.5, 0.5)"
proof -
  have a: "(5::nat) \<le> 3 * 3" and b: "(4::nat) < 5" by simp_all
  from atlas_layout [of 5] have w: "atlasWidth 5 = 3"
    and least: "\<forall>g. 5 \<le> g * g \<longrightarrow> atlasWidth 5 \<le> g"
    and slots: "\<forall>s < 5. atlasColumn s (atlasWidth 5) = s mod atlasWidth 5 \<and>
             atlasRow s (atlasWidth 5) = s div atlasWidth 5 \<and>
             atlasColumn s (atlasWidth 5) < atlasWidth 5 \<and> atlasRow s (atlasWidth 5) < atlasWidth 5 \<and>
             (\<forall>u v. remapUv s (atlasWidth 5) (u, v) =
                ((u + real (s mod atlasWidth 5)) / real (atlasWidth 5),
                 (v + real (s div atlasWidth 5)) / real (atlasWidth 5)))"
    by blast+
  from least a have "atlasWidth 5 \<le> 3" by blast
  moreover from slots b have "atlasColumn 4 (atlasWidth 5) = 4 mod atlasWidth 5 \<and>
             atlasRow 4 (atlasWidth 5) = 4 div atlasWidth 5 \<and>
             remapUv 4 (atlasWidth 5) (0.5, 0.5) =
                ((0.5 + real (4 mod atlasWidth 5)) / real (atlasWidth 5),
                 (0.5 + real (4 div atlasWidth 5)) / real (atlasWidth 5))"
    by blast
  ultimately show ?thesis using a b by (simp add: w)
qed

end
